theory Spec2Isabelle
  imports Main "HOL-Library.Sublist"
begin

section \<open>Python strings\<close>

text \<open>
  A Python \<open>str\<close> is modelled as a \<open>string\<close>; a \<open>char\<close> is read as the code point of
  the same number, so the model covers text whose code points are below 256.
  \<open>len\<close> is \<open>length\<close>. A value that may be \<open>None\<close> is a \<open>string option\<close>.
\<close>

text \<open>Truthiness of an optional string: \<open>None\<close> and \<open>""\<close> are false.\<close>

fun truthy :: "string option \<Rightarrow> bool" where
  "truthy None = False"
| "truthy (Some s) = (s \<noteq> [])"

text \<open>\<open>str.isspace\<close> on one character, for the code points below 256.\<close>

definition isspace :: "char \<Rightarrow> bool" where
  "isspace c = (c \<in> set [CHR 0x09, CHR 0x0A, CHR 0x0B, CHR 0x0C, CHR 0x0D,
                           CHR 0x1C, CHR 0x1D, CHR 0x1E, CHR 0x1F, CHR 0x20,
                           CHR 0x85, CHR 0xA0])"

text \<open>\<open>s.strip()\<close>: leading and trailing whitespace removed.\<close>

definition strip :: "string \<Rightarrow> string" where
  "strip s = rev (dropWhile isspace (rev (dropWhile isspace s)))"

text \<open>\<open>s.startswith(p)\<close>.\<close>

definition startswith :: "string \<Rightarrow> string \<Rightarrow> bool" where
  "startswith s p = (take (length p) s = p)"

text \<open>\<open>s.split(c)\<close> for a separator of one character: never empty.\<close>

fun split_str :: "char \<Rightarrow> string \<Rightarrow> string list" where
  "split_str c [] = [[]]"
| "split_str c (x # xs) =
     (if x = c then [] # split_str c xs
      else (case split_str c xs of
              l # ls \<Rightarrow> (x # l) # ls
            | [] \<Rightarrow> [[x]]))"

text \<open>\<open>s.split(c, 1)[1]\<close>, the text after the first \<open>c\<close>; the source only evaluates it
  where \<open>c in s\<close> holds.\<close>

definition split1_snd :: "char \<Rightarrow> string \<Rightarrow> string" where
  "split1_snd c s = drop 1 (dropWhile (\<lambda>x. x \<noteq> c) s)"

text \<open>\<open>str(n)\<close> and \<open>f"{n}"\<close> for a natural number: decimal, no leading zero.\<close>

definition digit_char :: "nat \<Rightarrow> char" where
  "digit_char d = ''0123456789'' ! d"

fun str_nat :: "nat \<Rightarrow> string" where
  "str_nat n = (if n < 10 then [digit_char n]
                else str_nat (n div 10) @ [digit_char (n mod 10)])"

section \<open>The outside world\<close>

text \<open>
  One outbound call \<open>client.messages.create(model, max_tokens, temperature=0.7,
  messages=[user: prompt])\<close>; the temperature is the same constant in every call and is left
  out.
\<close>

record request =
  model :: string
  max_tokens :: nat
  prompt :: string

text \<open>
  What a call gives back: \<open>Inr text\<close> is \<open>response.content[0].text\<close>, \<open>Inl msg\<close> is an
  exception raised by the call, with \<open>msg = str(e)\<close>. The reply is a parameter of every
  function that makes a call, so nothing is assumed of the service.
\<close>

type_synonym reply = "string + string"

datatype exn = IndexError | ValueError | ServiceError string

text \<open>
  The effects outside the session state: the requests sent, in order; the messages shown
  with \<open>st.error\<close>; the exceptions that no handler caught.
\<close>

record io =
  requests :: "request list"
  errors :: "string list"
  uncaught :: "exn list"

definition send :: "request \<Rightarrow> io \<Rightarrow> io" where
  "send r w = w\<lparr>requests := requests w @ [r]\<rparr>"

definition st_error :: "string \<Rightarrow> io \<Rightarrow> io" where
  "st_error m w = w\<lparr>errors := errors w @ [m]\<rparr>"

definition raise :: "exn \<Rightarrow> io \<Rightarrow> io" where
  "raise e w = w\<lparr>uncaught := uncaught w @ [e]\<rparr>"

section \<open>guavawriter2.py: GuavaWriter\<close>

text \<open>The two prompt fragments of \<open>PersonaManager\<close>, loaded before any handler runs.\<close>

record persona =
  ideation_prompt :: string
  dialogue_prompt :: string

subsection \<open>generate_ideas\<close>

definition ideas_prompt :: "persona \<Rightarrow> string \<Rightarrow> string" where
  "ideas_prompt p transcript =
     ''Having reviewed this transcript, I'll generate three distinct creative directions to explore.\<newline>\<newline>Here's my perspective:\<newline>''
     @ ideation_prompt p
     @ ''\<newline>\<newline>The transcript to analyze:\<newline>''
     @ transcript
     @ ''\<newline>\<newline>I'll share three clear ideas, each formatted as:\<newline>Idea: [idea here]\<newline>\<newline>Remember to focus on the core concept without restating that it's for a 60-second video.''"

text \<open>\<open>if current_idea: ideas.append(current_idea)\<close>\<close>

fun append_idea :: "string option \<Rightarrow> string list \<Rightarrow> string list" where
  "append_idea None ideas = ideas"
| "append_idea (Some c) ideas = (if c \<noteq> [] then ideas @ [c] else ideas)"

text \<open>One round of the loop over the lines; the state is \<open>(ideas, current_idea)\<close>.\<close>

fun parse_line :: "string list \<times> string option \<Rightarrow> string \<Rightarrow> string list \<times> string option" where
  "parse_line (ideas, current_idea) line =
     (if startswith (strip line) ''Idea'' \<and> CHR '':'' \<in> set line then
        (append_idea current_idea ideas, Some (strip (split1_snd (CHR '':'') line)))
      else if truthy current_idea \<and> strip line \<noteq> [] then
        (ideas, map_option (\<lambda>c. c @ '' '' @ strip line) current_idea)
      else (ideas, current_idea))"

definition parse_ideas :: "string \<Rightarrow> string list" where
  "parse_ideas text =
     (case foldl parse_line ([], None) (split_str (CHR ''\<newline>'') text) of
        (ideas, current_idea) \<Rightarrow> take 3 (append_idea current_idea ideas))"

definition generate_ideas :: "persona \<Rightarrow> reply \<Rightarrow> string \<Rightarrow> io \<Rightarrow> string list \<times> io" where
  "generate_ideas p reply transcript w =
     (if transcript = [] \<or> length (strip transcript) < 10 then
        ([], st_error ''Transcript is too short or empty'' w)
      else
        let w1 = send \<lparr>model = ''claude-3-sonnet-20240229'', max_tokens = 1000,
                        prompt = ideas_prompt p transcript\<rparr> w
        in (case reply of
              Inr text \<Rightarrow> (parse_ideas text, w1)
            | Inl msg \<Rightarrow> ([], st_error (''Error in idea generation: '' @ msg) w1)))"

subsection \<open>generate_script\<close>

text \<open>\<open>f"{x}"\<close> for a value that may be \<open>None\<close>.\<close>

fun str_opt :: "string option \<Rightarrow> string" where
  "str_opt None = ''None''"
| "str_opt (Some s) = s"

definition base_prompt :: "persona \<Rightarrow> string \<Rightarrow> string" where
  "base_prompt p idea =
     ''As Clio Maar, I am creating a 60-second intimate video essay about this AI development:\<newline>''
     @ idea
     @ ''\<newline>\<newline>My identity from persona.md:\<newline>''
     @ dialogue_prompt p
     @ ''\<newline>\<newline>Guidelines:\<newline>- Speak directly and intimately, as if to a cherished colleague\<newline>- Transform technical developments into artistic possibilities\<newline>- Keep focus on how this serves creative tradition\<newline>- Address any artistic anxieties with understanding\<newline>- Maintain my gentle New York State cadence\<newline>\<newline>Format the script with timestamps and clear visual directions. For visuals, use:\<newline>- SR: for screen recordings\<newline>- Gen: for generative video\<newline>- StA: for stock assets\<newline>\<newline>Remember: I'm sharing this development through my lens as an artist speaking to artists.''"

definition script_prompt ::
  "persona \<Rightarrow> string option \<Rightarrow> string \<Rightarrow> string \<Rightarrow> string option \<Rightarrow> string" where
  "script_prompt p transcript idea direction current_script =
     (if truthy current_script \<and> direction \<noteq> [] then
        base_prompt p idea @ ''\<newline>\<newline>Current script:\<newline>'' @ str_opt current_script
          @ ''\<newline>\<newline>Direction for revision:\<newline>'' @ direction
      else
        base_prompt p idea @ ''\<newline>\<newline>Context from source:\<newline>'' @ str_opt transcript
          @ ''\<newline>\<newline>Direction:\<newline>'' @ direction)"

text \<open>The call is not guarded: an exception of the service leaves \<open>generate_script\<close> as it
  is (\<open>Inl\<close>), and the text of the response is returned as it is (\<open>Inr\<close>).\<close>

definition generate_script ::
  "persona \<Rightarrow> reply \<Rightarrow> string option \<Rightarrow> string \<Rightarrow> string \<Rightarrow> string option \<Rightarrow> io
     \<Rightarrow> reply \<times> io" where
  "generate_script p reply transcript idea direction current_script w =
     (reply,
      send \<lparr>model = ''claude-3-opus-20240229'', max_tokens = 1000,
            prompt = script_prompt p transcript idea direction current_script\<rparr> w)"

subsection \<open>The session state and format_revision_history\<close>

text \<open>\<open>st.session_state.messages\<close> and the four entries of
  \<open>st.session_state.current_context\<close>.\<close>

record session =
  messages :: "(string \<times> string) list"
  transcript :: "string option"
  selected_idea :: "string option"
  current_script :: "string option"
  revision_history :: "(string \<times> string) list"

definition init_session :: session where
  "init_session = \<lparr>messages = [], transcript = None, selected_idea = None,
                    current_script = None, revision_history = []\<rparr>"

definition add_message :: "string \<Rightarrow> string \<Rightarrow> session \<Rightarrow> session" where
  "add_message role content s = s\<lparr>messages := messages s @ [(role, content)]\<rparr>"

text \<open>The body of the loop \<open>for i, (script, feedback) in enumerate(history, 1)\<close>, the same
  in both programs.\<close>

fun format_entry :: "string \<Rightarrow> nat \<times> string \<times> string \<Rightarrow> string" where
  "format_entry formatted (i, script, feedback) =
     formatted @ ''\<newline>VERSION '' @ str_nat i @ '':\<newline>'' @ script
       @ ''\<newline>FEEDBACK:\<newline>'' @ feedback @ ''\<newline>---''"

definition format_revision_history :: "session \<Rightarrow> string" where
  "format_revision_history s = foldl format_entry [] (enumerate 1 (revision_history s))"

subsection \<open>The handlers of main\<close>

text \<open>
  Each run of \<open>main\<close> reacts to one event of the page. \<open>fetched\<close> is what
  \<open>extract_video_id\<close> and \<open>get_transcript\<close> give for the URL: the transcript, or the
  message of the exception they raise.
\<close>

definition ideas_message :: "string list \<Rightarrow> string" where
  "ideas_message ideas =
     foldl (\<lambda>response (i, idea). response @ str_nat i @ ''. '' @ idea @ ''\<newline>'')
       ''I've been thinking about this piece, and I see three possibilities for a 60-second exploration:\<newline>\<newline>''
       (enumerate 1 ideas)
     @ ''\<newline>Which direction speaks to you?''"

fun ideate_handler :: "persona \<Rightarrow> reply \<Rightarrow> reply \<Rightarrow> session \<times> io \<Rightarrow> session \<times> io" where
  "ideate_handler p fetched reply (s, w) =
     (case fetched of
        Inl msg \<Rightarrow> (s, st_error (''Error: '' @ msg) w)
      | Inr t \<Rightarrow>
          (case generate_ideas p reply t w of
             (ideas, w1) \<Rightarrow>
               if ideas = [] then
                 (s\<lparr>transcript := Some t\<rparr>,
                  st_error ''No ideas were generated. Please try again.'' w1)
               else
                 (add_message ''assistant'' (ideas_message ideas) (s\<lparr>transcript := Some t\<rparr>),
                  w1)))"

text \<open>\<open>str.isdigit\<close> and \<open>int\<close> on the code points below 256: the superscripts
  \<open>0xB2\<close>, \<open>0xB3\<close> and \<open>0xB9\<close> are digits for \<open>isdigit\<close>, and \<open>int\<close> raises
  \<open>ValueError\<close> on them, as it does on more than 4300 digits (the default limit of the
  conversion). \<open>int_str\<close> is \<open>None\<close> where \<open>int\<close> raises.\<close>

definition isdecimal_char :: "char \<Rightarrow> bool" where
  "isdecimal_char c = (c \<in> set ''0123456789'')"

definition isdigit :: "string \<Rightarrow> bool" where
  "isdigit s = (s \<noteq> [] \<and>
     list_all (\<lambda>c. isdecimal_char c \<or> c \<in> set [CHR 0xB2, CHR 0xB3, CHR 0xB9]) s)"

definition decimal_value :: "string \<Rightarrow> nat" where
  "decimal_value s = foldl (\<lambda>a c. 10 * a + (of_char c - 48)) 0 s"

definition int_str :: "string \<Rightarrow> nat option" where
  "int_str s = (if s \<noteq> [] \<and> list_all isdecimal_char s \<and> length s \<le> 4300
                then Some (decimal_value s) else None)"

fun select_idea_handler :: "persona \<Rightarrow> string \<Rightarrow> reply \<Rightarrow> session \<times> io \<Rightarrow> session \<times> io" where
  "select_idea_handler p idea_input reply (s, w) =
     (case transcript s of
        None \<Rightarrow> (s, w)
      | Some t \<Rightarrow>
          if t = [] \<or> truthy (selected_idea s) then (s, w)
          else if idea_input = [] \<or> \<not> isdigit idea_input then (s, w)
          else (case int_str idea_input of
                  None \<Rightarrow> (s, raise ValueError w)
                | Some n \<Rightarrow>
                    if \<not> (1 \<le> n \<and> n \<le> 3) then (s, w)
                    else (case generate_ideas p reply t w of
                            (ideas, w1) \<Rightarrow>
                              if n - 1 < length ideas then
                                (add_message ''assistant''
                                   ''Great choice! What direction would you like to take with this idea?''
                                   (add_message ''user'' (''Let's go with idea '' @ idea_input)
                                      (s\<lparr>selected_idea := Some (ideas ! (n - 1))\<rparr>)),
                                 w1)
                              else (s, raise IndexError w1))))"

text \<open>\<open>if current_script: revision_history.append((current_script, direction))\<close>\<close>

fun append_revision :: "string option \<Rightarrow> string \<Rightarrow> session \<Rightarrow> session" where
  "append_revision None direction s = s"
| "append_revision (Some c) direction s =
     (if c \<noteq> [] then s\<lparr>revision_history := revision_history s @ [(c, direction)]\<rparr> else s)"

fun update_script_handler :: "persona \<Rightarrow> string \<Rightarrow> reply \<Rightarrow> session \<times> io \<Rightarrow> session \<times> io" where
  "update_script_handler p direction reply (s, w) =
     (if \<not> truthy (selected_idea s) then (s, w)
      else
        let s1 = append_revision (current_script s) direction s
        in (case generate_script p reply (transcript s1) (str_opt (selected_idea s1)) direction
                   (current_script s) w of
              (Inr new_script, w1) \<Rightarrow>
                (add_message ''assistant''
                   (''Here's the '' @ (if truthy (current_script s) then ''revised'' else ''new'')
                      @ '' script:\<newline>\<newline>'' @ new_script)
                   (s1\<lparr>current_script := Some new_script\<rparr>),
                 w1)
            | (Inl msg, w1) \<Rightarrow> (s1, st_error (''Error in script generation: '' @ msg) w1)))"

text \<open>The events of the page. \<open>Approve\<close> shows the banner and the download button and
  writes nothing to the session.\<close>

datatype action =
    Ideate reply reply
  | Select string reply
  | Update string reply
  | Approve

fun step :: "persona \<Rightarrow> action \<Rightarrow> session \<times> io \<Rightarrow> session \<times> io" where
  "step p (Ideate fetched reply) c = ideate_handler p fetched reply c"
| "step p (Select idea_input reply) c = select_idea_handler p idea_input reply c"
| "step p (Update direction reply) c = update_script_handler p direction reply c"
| "step p Approve c = c"

text \<open>The states a session can be in: the initial one, and what the handlers make of
  them.\<close>

inductive reachable :: "persona \<Rightarrow> session \<times> io \<Rightarrow> bool" for p :: persona where
  start: "reachable p (init_session, w)"
| next_step: "reachable p c \<Longrightarrow> reachable p (step p a c)"

section \<open>simplified-app.py\<close>

text \<open>The five entries of \<open>st.session_state\<close> that the script initialises to \<open>None\<close>
  and \<open>[]\<close>.\<close>

record app_state =
  st_transcript :: "string option"
  st_ideas :: "string list option"
  st_selected_idea :: "string option"
  st_current_script :: "string option"
  st_revision_history :: "(string \<times> string) list"

definition init_app_state :: app_state where
  "init_app_state = \<lparr>st_transcript = None, st_ideas = None, st_selected_idea = None,
                      st_current_script = None, st_revision_history = []\<rparr>"

text \<open>\<open>generate_ideas\<close> of this file: no check of the transcript, no guard around the
  call, and only the lines that start with the marker are kept.\<close>

definition app_generate_ideas :: "reply \<Rightarrow> string option \<Rightarrow> io \<Rightarrow> (string + string list) \<times> io" where
  "app_generate_ideas reply transcript' w =
     ((case reply of
         Inl msg \<Rightarrow> Inl msg
       | Inr text \<Rightarrow>
           Inr (take 3 (map (\<lambda>line. strip (drop 5 line))
                  (filter (\<lambda>line. startswith line ''Idea:'')
                     (split_str (CHR ''\<newline>'') text))))),
      send \<lparr>model = ''claude-3-sonnet-20240229'', max_tokens = 500,
            prompt = ''Based on this transcript, generate exactly 3 clear, concrete ideas for 60-second videos explaining AI developments. Each idea should start with 'Idea: '.\<newline>\<newline>Transcript:\<newline>''
                     @ str_opt transcript'\<rparr> w)"

definition format_history :: "(string \<times> string) list \<Rightarrow> string" where
  "format_history history = foldl format_entry [] (enumerate 1 history)"

definition app_script_prompt ::
  "app_state \<Rightarrow> string option \<Rightarrow> string \<Rightarrow> string \<Rightarrow> string option \<Rightarrow> string" where
  "app_script_prompt s transcript' idea direction current_script' =
     (let history = (if st_revision_history s \<noteq> [] then format_history (st_revision_history s)
                     else [])
      in if truthy current_script' \<and> direction \<noteq> [] then
           ''Revise this script based on the feedback and revision history:\<newline>'' @ history
             @ ''\<newline>CURRENT SCRIPT:\<newline>'' @ str_opt current_script'
             @ ''\<newline>NEW FEEDBACK:\<newline>'' @ direction
         else
           ''Create a 60-second video script about this AI development:\<newline>\<newline>'' @ idea
             @ ''\<newline>\<newline>Direction:\<newline>'' @ direction
             @ ''\<newline>\<newline>Context:\<newline>'' @ str_opt transcript')"

definition app_generate_script ::
  "app_state \<Rightarrow> reply \<Rightarrow> string option \<Rightarrow> string \<Rightarrow> string \<Rightarrow> string option \<Rightarrow> io
     \<Rightarrow> reply \<times> io" where
  "app_generate_script s reply transcript' idea direction current_script' w =
     (reply,
      send \<lparr>model = ''claude-3-opus-20240229'', max_tokens = 1000,
            prompt = app_script_prompt s transcript' idea direction current_script'\<rparr> w)"

text \<open>The button \<open>Ideate\<close>: the only handler of this file with a \<open>try\<close>.\<close>

fun app_ideate_handler :: "reply \<Rightarrow> reply \<Rightarrow> app_state \<times> io \<Rightarrow> app_state \<times> io" where
  "app_ideate_handler fetched reply (s, w) =
     (case fetched of
        Inl msg \<Rightarrow> (s, st_error (''Error: '' @ msg) w)
      | Inr t \<Rightarrow>
          (case app_generate_ideas reply (Some t) w of
             (Inr ideas, w1) \<Rightarrow> (s\<lparr>st_transcript := Some t, st_ideas := Some ideas\<rparr>, w1)
           | (Inl msg, w1) \<Rightarrow> (s\<lparr>st_transcript := Some t\<rparr>, st_error (''Error: '' @ msg) w1)))"

text \<open>The radio button, shown while \<open>ideas\<close> is a non-empty list; \<open>selected\<close> is the
  option it returns, \<open>""\<close> or one of the ideas. The assignment under \<open>if selected\<close> is
  followed by the same assignment without the test, so the entry is always overwritten.\<close>

fun app_radio_handler :: "string \<Rightarrow> app_state \<times> io \<Rightarrow> app_state \<times> io" where
  "app_radio_handler selected (s, w) =
     (case st_ideas s of
        None \<Rightarrow> (s, w)
      | Some ideas \<Rightarrow>
          if ideas = [] then (s, w)
          else
            let s1 = (if selected \<noteq> [] then s\<lparr>st_selected_idea := Some selected\<rparr> else s)
            in (s1\<lparr>st_selected_idea := Some selected\<rparr>, w))"

text \<open>The button \<open>Crack On\<close>: \<open>generate_script\<close> without a current script.\<close>

fun app_crack_on_handler :: "string \<Rightarrow> reply \<Rightarrow> app_state \<times> io \<Rightarrow> app_state \<times> io" where
  "app_crack_on_handler direction reply (s, w) =
     (if \<not> truthy (st_selected_idea s) then (s, w)
      else (case app_generate_script s reply (st_transcript s) (str_opt (st_selected_idea s))
                   direction None w of
              (Inr script, w1) \<Rightarrow> (s\<lparr>st_current_script := Some script\<rparr>, w1)
            | (Inl msg, w1) \<Rightarrow> (s, raise (ServiceError msg) w1)))"

text \<open>The button \<open>Update Script\<close>, shown while there is a current script.\<close>

fun app_update_script_handler :: "string \<Rightarrow> reply \<Rightarrow> app_state \<times> io \<Rightarrow> app_state \<times> io" where
  "app_update_script_handler new_direction reply (s, w) =
     (if \<not> truthy (st_current_script s) then (s, w)
      else
        let s1 = s\<lparr>st_revision_history :=
                     st_revision_history s @ [(str_opt (st_current_script s), new_direction)]\<rparr>
        in (case app_generate_script s1 reply (st_transcript s1) (str_opt (st_selected_idea s1))
                   new_direction (st_current_script s1) w of
              (Inr revised_script, w1) \<Rightarrow> (s1\<lparr>st_current_script := Some revised_script\<rparr>, w1)
            | (Inl msg, w1) \<Rightarrow> (s1, raise (ServiceError msg) w1)))"

section \<open>Concrete inputs\<close>

text \<open>The fragments that \<open>load_persona\<close> falls back to, and the world before any effect.\<close>

definition default_persona :: persona where
  "default_persona = \<lparr>ideation_prompt = ''Generate creative ideas'',
                       dialogue_prompt = ''Engage in dialogue''\<rparr>"

definition init_io :: io where
  "init_io = \<lparr>requests = [], errors = [], uncaught = []\<rparr>"

text \<open>Sessions of the two programs: with a transcript, with an idea selected, with a first
  script, and after one revision.\<close>

definition transcript_loaded :: session where
  "transcript_loaded = init_session\<lparr>transcript := Some ''valid transcript text''\<rparr>"

definition idea_selected :: session where
  "idea_selected = init_session\<lparr>transcript := Some ''valid transcript text'',
                                 selected_idea := Some ''Y''\<rparr>"

definition scripted :: session where
  "scripted = idea_selected\<lparr>current_script := Some ''draft v1''\<rparr>"

definition revised :: session where
  "revised = scripted\<lparr>current_script := Some ''draft v2'',
                        revision_history := [(''draft v1'', ''make it shorter'')]\<rparr>"

definition app_idea_selected :: app_state where
  "app_idea_selected = init_app_state\<lparr>st_transcript := Some ''valid transcript text'',
                                       st_ideas := Some [''X'', ''Y'', ''Z''],
                                       st_selected_idea := Some ''Y''\<rparr>"

definition app_scripted :: app_state where
  "app_scripted = app_idea_selected\<lparr>st_current_script := Some ''draft v1''\<rparr>"

text \<open>A numeral of 4301 digits, one more than \<open>int\<close> converts.\<close>

definition long_numeral :: string where
  "long_numeral = replicate 4301 (CHR ''1'')"

text \<open>The response body of the parsing example.\<close>

definition example_body :: string where
  "example_body = ''Idea: A thing\<newline>more detail\<newline>Idea: Second\<newline>Idea: Third\<newline>Idea: Fourth''"

text \<open>A run of guavawriter2.py from the initial session: the transcript is loaded; then
  the second idea is selected and a first script is generated.\<close>

definition loaded_run :: "session \<times> io" where
  "loaded_run =
     step default_persona (Ideate (Inr ''valid transcript text'') (Inr example_body))
       (init_session, init_io)"

definition scripted_run :: "session \<times> io" where
  "scripted_run =
     step default_persona (Update [] (Inr ''draft v1''))
       (step default_persona (Select ''2'' (Inr example_body)) loaded_run)"

section \<open>The serialised revision history\<close>

text \<open>A loop that appends one block per entry of an enumerated list yields the blocks in
  the order of the list, the block at position \<open>k\<close> carrying the number \<open>n + k\<close>.\<close>

lemma foldl_enumerate_blocks:
  assumes f: "\<And>acc i x. f acc (i, x) = acc @ b i x"
  shows "foldl f acc (enumerate n h) = acc @ concat (map (\<lambda>k. b (n + k) (h ! k)) [0..<length h])"
proof (induction h rule: rev_induct)
  case Nil
  show ?case by simp
next
  case (snoc e h)
  have same: "map (\<lambda>k. b (n + k) ((h @ [e]) ! k)) [0..<length h]
                = map (\<lambda>k. b (n + k) (h ! k)) [0..<length h]"
    by (rule map_cong) (simp_all add: nth_append)
  have "foldl f acc (enumerate n (h @ [e])) = foldl f acc (enumerate n h) @ b (n + length h) e"
    by (simp add: enumerate_append_eq f)
  also have "\<dots> = acc @ concat (map (\<lambda>k. b (n + k) (h ! k)) [0..<length h]) @ b (n + length h) e"
    by (simp add: snoc.IH)
  also have "\<dots> = acc @ concat (map (\<lambda>k. b (n + k) ((h @ [e]) ! k)) [0..<length (h @ [e])])"
    by (simp add: same)
  finally show ?case .
qed

lemma format_entry_blocks:
  "foldl format_entry [] (enumerate 1 h) =
     concat (map (\<lambda>k. ''\<newline>VERSION '' @ str_nat (k + 1) @ '':\<newline>'' @ fst (h ! k)
                        @ ''\<newline>FEEDBACK:\<newline>'' @ snd (h ! k) @ ''\<newline>---'')
               [0..<length h])"
proof -
  have "foldl format_entry [] (enumerate 1 h) =
          [] @ concat (map (\<lambda>k. (\<lambda>i x. ''\<newline>VERSION '' @ str_nat i @ '':\<newline>'' @ fst x
                        @ ''\<newline>FEEDBACK:\<newline>'' @ snd x @ ''\<newline>---'') (1 + k) (h ! k)) [0..<length h])"
  proof (rule foldl_enumerate_blocks)
    fix acc i and x :: "string \<times> string"
    show "format_entry acc (i, x) = acc @ ''\<newline>VERSION '' @ str_nat i @ '':\<newline>'' @ fst x
                        @ ''\<newline>FEEDBACK:\<newline>'' @ snd x @ ''\<newline>---''"
      by (cases x) (simp del: str_nat.simps)
  qed
  then show ?thesis by (simp del: str_nat.simps)
qed

text \<open>
  C8. For a revision history of any length, \<open>format_history\<close> (simplified-app.py) and
  \<open>format_revision_history\<close> (guavawriter2.py) return the concatenation, in the order of
  the list, of one block per entry: the block of the entry at position \<open>k\<close> (counted from
  0) holds the ordinal \<open>k + 1\<close>, the script of that entry and the feedback of that entry.
  Both are functions from the history to a string: the same history gives the same text,
  and no session state is returned, so none is changed.
\<close>

theorem format_history_blocks:
  "format_history h =
     concat (map (\<lambda>k. ''\<newline>VERSION '' @ str_nat (k + 1) @ '':\<newline>'' @ fst (h ! k)
                        @ ''\<newline>FEEDBACK:\<newline>'' @ snd (h ! k) @ ''\<newline>---'')
               [0..<length h])
   \<and> format_revision_history s =
     concat (map (\<lambda>k. ''\<newline>VERSION '' @ str_nat (k + 1) @ '':\<newline>'' @ fst (revision_history s ! k)
                        @ ''\<newline>FEEDBACK:\<newline>'' @ snd (revision_history s ! k) @ ''\<newline>---'')
               [0..<length (revision_history s)])"
  unfolding format_history_def format_revision_history_def
  using format_entry_blocks [of h] format_entry_blocks [of "revision_history s"] by blast

text \<open>The history after two revisions, serialised.\<close>

lemma format_history_two_entries:
  "format_history [(''draft v1'', ''make it shorter''), (''draft v2'', ''add a hook'')] =
     ''\<newline>VERSION 1:\<newline>draft v1\<newline>FEEDBACK:\<newline>make it shorter\<newline>---\<newline>VERSION 2:\<newline>draft v2\<newline>FEEDBACK:\<newline>add a hook\<newline>---''"
  by (simp add: format_history_def digit_char_def)

text \<open>
  C10. For an empty revision history both functions return the empty string: the
  accumulator starts empty and the loop body never runs.
\<close>

theorem format_history_empty:
  "format_history [] = [] \<and> format_revision_history (s\<lparr>revision_history := []\<rparr>) = []"
  by (simp add: format_history_def format_revision_history_def)


section \<open>Idea proposal\<close>

lemma strip_Nil: "strip [] = []"
  by (simp add: strip_def)

lemma length_parse_ideas: "length (parse_ideas text) \<le> 3"
  by (simp add: parse_ideas_def split: prod.splits)

lemma length_generate_ideas: "length (fst (generate_ideas p reply t w)) \<le> 3"
  by (simp add: generate_ideas_def Let_def length_parse_ideas split: sum.splits)

lemma parse_ideas_example:
  "parse_ideas example_body = [''A thing more detail'', ''Second'', ''Third'']"
  by code_simp

lemma app_parse_example:
  "take 3 (map (\<lambda>line. strip (drop 5 line))
             (filter (\<lambda>line. startswith line ''Idea:'')
                (split_str (CHR ''\<newline>'') example_body)))
   = [''A thing'', ''Second'', ''Third'']"
  by code_simp

text \<open>
  C5, as amended. On the example body, \<open>generate_ideas\<close> of guavawriter2.py, called with a
  transcript that passes its length check, returns exactly
  \<open>["A thing more detail", "Second", "Third"]\<close>: a marker line starts an idea, the
  following non-empty line is merged into it, and the list is cut to three (it never has
  more than three entries, whatever the response). \<open>generate_ideas\<close> of simplified-app.py
  keeps only the marker lines and returns \<open>["A thing", "Second", "Third"]\<close>.
\<close>

theorem generate_ideas_example:
  "10 \<le> length (strip t) \<Longrightarrow>
     fst (generate_ideas p (Inr example_body) t w) = [''A thing more detail'', ''Second'', ''Third'']
     \<and> length (fst (generate_ideas p reply t w)) \<le> 3
     \<and> fst (app_generate_ideas (Inr example_body) t' w) = Inr [''A thing'', ''Second'', ''Third'']"
proof -
  assume long: "10 \<le> length (strip t)"
  then have ne: "t \<noteq> []" by (auto simp: strip_Nil)
  have a: "fst (generate_ideas p (Inr example_body) t w)
             = [''A thing more detail'', ''Second'', ''Third'']"
    using long ne by (simp add: generate_ideas_def Let_def parse_ideas_example)
  have c: "fst (app_generate_ideas (Inr example_body) t' w) = Inr [''A thing'', ''Second'', ''Third'']"
    unfolding app_generate_ideas_def using app_parse_example by simp
  from a length_generate_ideas c show ?thesis by blast
qed

theorem generate_ideas_example_witness:
  "10 \<le> length (strip ''valid transcript text'')
   \<and> fst (generate_ideas default_persona (Inr example_body) ''valid transcript text'' init_io)
       = [''A thing more detail'', ''Second'', ''Third'']"
proof -
  have h: "10 \<le> length (strip ''valid transcript text'')" by code_simp
  from generate_ideas_example [OF h] h show ?thesis by blast
qed

text \<open>The claim as written fails on simplified-app.py: the continuation line is dropped.\<close>

theorem app_generate_ideas_example_counterexample:
  "fst (app_generate_ideas (Inr example_body) (Some ''valid transcript text'') init_io)
     \<noteq> Inr [''A thing more detail'', ''Second'', ''Third'']"
  unfolding app_generate_ideas_def using app_parse_example by simp





section \<open>Script generation and the revision history\<close>

lemma append_revision_fields [simp]:
  "messages (append_revision c d s) = messages s"
  "transcript (append_revision c d s) = transcript s"
  "selected_idea (append_revision c d s) = selected_idea s"
  "current_script (append_revision c d s) = current_script s"
  by (cases c; simp)+

lemma append_revision_history:
  "revision_history (append_revision c d s) =
     (if truthy c then revision_history s @ [(str_opt c, d)] else revision_history s)"
  by (cases c) simp_all

lemma add_message_fields [simp]:
  "transcript (add_message r c s) = transcript s"
  "selected_idea (add_message r c s) = selected_idea s"
  "current_script (add_message r c s) = current_script s"
  "revision_history (add_message r c s) = revision_history s"
  by (simp_all add: add_message_def)

lemma update_script_handler_ok:
  "truthy (selected_idea s) \<Longrightarrow>
   fst (update_script_handler p direction (Inr new_script) (s, w)) =
     add_message ''assistant''
       (''Here's the '' @ (if truthy (current_script s) then ''revised'' else ''new'')
          @ '' script:\<newline>\<newline>'' @ new_script)
       ((append_revision (current_script s) direction s)\<lparr>current_script := Some new_script\<rparr>)"
  by (simp add: generate_script_def Let_def)

lemma update_script_handler_failed:
  "truthy (selected_idea s) \<Longrightarrow>
   update_script_handler p direction (Inl msg) (s, w) =
     (append_revision (current_script s) direction s,
      st_error (''Error in script generation: '' @ msg)
        (send \<lparr>model = ''claude-3-opus-20240229'', max_tokens = 1000,
               prompt = script_prompt p (transcript s) (str_opt (selected_idea s)) direction
                          (current_script s)\<rparr> w))"
  by (simp add: generate_script_def Let_def)

lemma app_crack_on_ok:
  "truthy (st_selected_idea a) \<Longrightarrow>
   fst (app_crack_on_handler direction (Inr script) (a, w)) = a\<lparr>st_current_script := Some script\<rparr>"
  by (simp add: app_generate_script_def)

lemma app_crack_on_failed:
  "fst (app_crack_on_handler direction (Inl msg) (a, w)) = a"
  by (simp add: app_generate_script_def)

lemma app_update_ok:
  "truthy (st_current_script a) \<Longrightarrow>
   fst (app_update_script_handler d (Inr script) (a, w)) =
     a\<lparr>st_revision_history := st_revision_history a @ [(str_opt (st_current_script a), d)],
       st_current_script := Some script\<rparr>"
  by (simp add: app_generate_script_def Let_def)

lemma app_update_failed:
  "fst (app_update_script_handler d (Inl msg) (a, w)) =
     (if truthy (st_current_script a)
      then a\<lparr>st_revision_history := st_revision_history a @ [(str_opt (st_current_script a), d)]\<rparr>
      else a)"
  by (simp add: app_generate_script_def Let_def)

text \<open>
  C1, as amended. With an idea selected (the handler is shown only then) and no current
  script, a generation that returns a non-empty \<open>text1\<close> for the feedback \<open>fb1\<close> leaves the
  revision history as it was (empty, if it was empty) and makes \<open>text1\<close> the current
  script; a following generation that returns \<open>text2\<close> for \<open>fb2\<close> appends exactly the entry
  \<open>(text1, fb2)\<close> and makes \<open>text2\<close> the current script. In guavawriter2.py both are the
  handler of \<open>Generate/Update Script\<close>; in simplified-app.py the first is \<open>Crack On\<close> and
  the second \<open>Update Script\<close>.
\<close>

theorem record_generation_pairs:
  "(truthy (selected_idea s) \<and> \<not> truthy (current_script s) \<and> text1 \<noteq> [] \<longrightarrow>
      (let c1 = update_script_handler p fb1 (Inr text1) (s, w);
           c2 = update_script_handler p fb2 (Inr text2) c1
       in revision_history (fst c1) = revision_history s
          \<and> current_script (fst c1) = Some text1
          \<and> revision_history (fst c2) = revision_history s @ [(text1, fb2)]
          \<and> current_script (fst c2) = Some text2))
   \<and> (truthy (st_selected_idea a) \<and> \<not> truthy (st_current_script a) \<and> text1 \<noteq> [] \<longrightarrow>
      (let c1 = app_crack_on_handler fb1 (Inr text1) (a, w);
           c2 = app_update_script_handler fb2 (Inr text2) c1
       in st_revision_history (fst c1) = st_revision_history a
          \<and> st_current_script (fst c1) = Some text1
          \<and> st_revision_history (fst c2) = st_revision_history a @ [(text1, fb2)]
          \<and> st_current_script (fst c2) = Some text2))"
proof (intro conjI impI)
  assume h: "truthy (selected_idea s) \<and> \<not> truthy (current_script s) \<and> text1 \<noteq> []"
  obtain s1 w1 where c1: "update_script_handler p fb1 (Inr text1) (s, w) = (s1, w1)"
    by (cases "update_script_handler p fb1 (Inr text1) (s, w)")
  have s1: "s1 = add_message ''assistant'' (''Here's the new script:\<newline>\<newline>'' @ text1)
                   ((append_revision (current_script s) fb1 s)\<lparr>current_script := Some text1\<rparr>)"
    using update_script_handler_ok [of s p fb1 text1 w] h c1 by simp
  have sel1: "truthy (selected_idea s1)" and cur1: "current_script s1 = Some text1"
    and hist1: "revision_history s1 = revision_history s"
    using h by (simp_all add: s1 append_revision_history)
  have s2: "fst (update_script_handler p fb2 (Inr text2) (s1, w1)) =
      add_message ''assistant'' (''Here's the revised script:\<newline>\<newline>'' @ text2)
        ((append_revision (Some text1) fb2 s1)\<lparr>current_script := Some text2\<rparr>)"
    using update_script_handler_ok [OF sel1, of p fb2 text2 w1] h by (simp add: cur1)
  show "let c1 = update_script_handler p fb1 (Inr text1) (s, w);
           c2 = update_script_handler p fb2 (Inr text2) c1
       in revision_history (fst c1) = revision_history s
          \<and> current_script (fst c1) = Some text1
          \<and> revision_history (fst c2) = revision_history s @ [(text1, fb2)]
          \<and> current_script (fst c2) = Some text2"
    unfolding Let_def c1 s2 using h by (simp add: cur1 hist1)
next
  assume h: "truthy (st_selected_idea a) \<and> \<not> truthy (st_current_script a) \<and> text1 \<noteq> []"
  obtain a1 w1 where c1: "app_crack_on_handler fb1 (Inr text1) (a, w) = (a1, w1)"
    by (cases "app_crack_on_handler fb1 (Inr text1) (a, w)")
  have a1: "a1 = a\<lparr>st_current_script := Some text1\<rparr>"
    using app_crack_on_ok [of a fb1 text1 w] h c1 by simp
  have cur1: "truthy (st_current_script a1)" using h by (simp add: a1)
  show "let c1 = app_crack_on_handler fb1 (Inr text1) (a, w);
           c2 = app_update_script_handler fb2 (Inr text2) c1
       in st_revision_history (fst c1) = st_revision_history a
          \<and> st_current_script (fst c1) = Some text1
          \<and> st_revision_history (fst c2) = st_revision_history a @ [(text1, fb2)]
          \<and> st_current_script (fst c2) = Some text2"
    unfolding Let_def c1 app_update_ok [OF cur1] by (simp add: a1)
qed

theorem record_generation_pairs_witness:
  "truthy (selected_idea idea_selected) \<and> \<not> truthy (current_script idea_selected)
   \<and> revision_history idea_selected = []
   \<and> revision_history (fst (update_script_handler default_persona [] (Inr ''draft v1'')
        (idea_selected, init_io))) = []
   \<and> current_script (fst (update_script_handler default_persona [] (Inr ''draft v1'')
        (idea_selected, init_io))) = Some ''draft v1''
   \<and> revision_history (fst (update_script_handler default_persona ''make it shorter'' (Inr ''draft v2'')
        (update_script_handler default_persona [] (Inr ''draft v1'') (idea_selected, init_io))))
       = [(''draft v1'', ''make it shorter'')]
   \<and> current_script (fst (update_script_handler default_persona ''make it shorter'' (Inr ''draft v2'')
        (update_script_handler default_persona [] (Inr ''draft v1'') (idea_selected, init_io))))
       = Some ''draft v2''
   \<and> truthy (st_selected_idea app_idea_selected) \<and> \<not> truthy (st_current_script app_idea_selected)
   \<and> st_revision_history (fst (app_update_script_handler ''make it shorter'' (Inr ''draft v2'')
        (app_crack_on_handler [] (Inr ''draft v1'') (app_idea_selected, init_io))))
       = [(''draft v1'', ''make it shorter'')]
   \<and> st_current_script (fst (app_update_script_handler ''make it shorter'' (Inr ''draft v2'')
        (app_crack_on_handler [] (Inr ''draft v1'') (app_idea_selected, init_io))))
       = Some ''draft v2''"
proof -
  have g: "truthy (selected_idea idea_selected) \<and> \<not> truthy (current_script idea_selected)
           \<and> revision_history idea_selected = []"
    by (simp add: idea_selected_def init_session_def)
  have a: "truthy (st_selected_idea app_idea_selected) \<and> \<not> truthy (st_current_script app_idea_selected)
           \<and> st_revision_history app_idea_selected = []"
    by (simp add: app_idea_selected_def init_app_state_def)
  show ?thesis
    using g a
      record_generation_pairs [of idea_selected "''draft v1''" default_persona "[]" init_io
        "''make it shorter''" "''draft v2''" app_idea_selected]
    by (simp add: Let_def)
qed

text \<open>The claim as written fails for an empty first text: the test \<open>if current_script\<close>
  takes the empty script for no script, and the second generation appends nothing.\<close>

theorem record_generation_pairs_counterexample:
  "current_script (fst (update_script_handler default_persona [] (Inr []) (idea_selected, init_io)))
     = Some []
   \<and> revision_history (fst (update_script_handler default_persona ''make it shorter'' (Inr ''draft v2'')
        (update_script_handler default_persona [] (Inr []) (idea_selected, init_io)))) = []"
proof -
  have sel: "truthy (selected_idea idea_selected)"
    by (simp add: idea_selected_def init_session_def)
  obtain s1 w1 where c1: "update_script_handler default_persona [] (Inr []) (idea_selected, init_io) = (s1, w1)"
    by (cases "update_script_handler default_persona [] (Inr []) (idea_selected, init_io)")
  have s1: "s1 = add_message ''assistant'' ''Here's the new script:\<newline>\<newline>''
                   (idea_selected\<lparr>current_script := Some []\<rparr>)"
    using update_script_handler_ok [OF sel, of default_persona "[]" "[]" init_io] c1
    by (simp add: idea_selected_def init_session_def)
  have sel1: "truthy (selected_idea s1)"
    by (simp add: s1 idea_selected_def init_session_def)
  have "revision_history (fst (update_script_handler default_persona ''make it shorter'' (Inr ''draft v2'') (s1, w1))) = []"
    unfolding update_script_handler_ok [OF sel1]
    by (simp add: s1 idea_selected_def init_session_def)
  then show ?thesis unfolding c1 by (simp add: s1)
qed


text \<open>From here on the handlers are used through the lemmas about them.\<close>

declare update_script_handler.simps [simp del]
declare app_update_script_handler.simps [simp del]
declare app_crack_on_handler.simps [simp del]

lemma update_script_handler_hidden:
  "\<not> truthy (selected_idea s) \<Longrightarrow> update_script_handler p direction reply (s, w) = (s, w)"
  by (simp add: update_script_handler.simps)

text \<open>
  C2, as amended. When the generation call fails, the current script, the transcript, the
  selected idea and the messages are as before, and so is the whole session if there was
  no current script. If there was a current script, the entry (current script, feedback)
  is already in the revision history: both programs append it before they call the
  service, and nothing takes it out again. In guavawriter2.py the exception is caught and
  shown; in simplified-app.py it is not caught. \<open>Crack On\<close> of simplified-app.py, which
  appends nothing, leaves the session as it was.
\<close>

theorem failed_generation_state:
  "messages (fst (update_script_handler p d (Inl msg) (s, w))) = messages s
   \<and> transcript (fst (update_script_handler p d (Inl msg) (s, w))) = transcript s
   \<and> selected_idea (fst (update_script_handler p d (Inl msg) (s, w))) = selected_idea s
   \<and> current_script (fst (update_script_handler p d (Inl msg) (s, w))) = current_script s
   \<and> revision_history (fst (update_script_handler p d (Inl msg) (s, w))) =
       (if truthy (selected_idea s) \<and> truthy (current_script s)
        then revision_history s @ [(str_opt (current_script s), d)] else revision_history s)
   \<and> (\<not> truthy (current_script s) \<longrightarrow> fst (update_script_handler p d (Inl msg) (s, w)) = s)
   \<and> fst (app_update_script_handler d (Inl msg) (a, w)) =
       (if truthy (st_current_script a)
        then a\<lparr>st_revision_history := st_revision_history a @ [(str_opt (st_current_script a), d)]\<rparr>
        else a)
   \<and> fst (app_crack_on_handler d (Inl msg) (a, w)) = a"
proof (cases "truthy (selected_idea s)")
  case True
  have "fst (update_script_handler p d (Inl msg) (s, w)) = append_revision (current_script s) d s"
    by (simp only: update_script_handler_failed [OF True] fst_conv)
  moreover have "\<not> truthy c \<Longrightarrow> append_revision c d s = s" for c
    by (cases c) simp_all
  ultimately show ?thesis
    using True
    by (simp add: append_revision_history app_update_failed app_crack_on_failed)
next
  case False
  then have "update_script_handler p d (Inl msg) (s, w) = (s, w)"
    by (rule update_script_handler_hidden)
  with False show ?thesis
    by (simp add: app_update_failed app_crack_on_failed)
qed

theorem failed_generation_state_witness:
  "\<not> truthy (current_script idea_selected)
   \<and> fst (update_script_handler default_persona ''make it shorter'' (Inl ''overloaded'')
           (idea_selected, init_io)) = idea_selected
   \<and> current_script (fst (update_script_handler default_persona ''make it shorter''
           (Inl ''overloaded'') (scripted, init_io))) = Some ''draft v1''
   \<and> revision_history (fst (update_script_handler default_persona ''make it shorter''
           (Inl ''overloaded'') (scripted, init_io))) = [(''draft v1'', ''make it shorter'')]"
  using failed_generation_state [of default_persona "''make it shorter''" "''overloaded''"
          idea_selected init_io]
        failed_generation_state [of default_persona "''make it shorter''" "''overloaded''"
          scripted init_io]
  by (simp add: scripted_def idea_selected_def init_session_def)

text \<open>The claim as written fails in both programs: after a failed revision the session
  is not the one before the action, the history has one more entry.\<close>

theorem failed_generation_state_counterexample:
  "fst (update_script_handler default_persona ''make it shorter'' (Inl ''overloaded'')
          (scripted, init_io)) \<noteq> scripted
   \<and> revision_history scripted = []
   \<and> revision_history (fst (update_script_handler default_persona ''make it shorter''
          (Inl ''overloaded'') (scripted, init_io))) = [(''draft v1'', ''make it shorter'')]
   \<and> st_revision_history app_scripted = []
   \<and> st_revision_history (fst (app_update_script_handler ''make it shorter''
          (Inl ''overloaded'') (app_scripted, init_io))) = [(''draft v1'', ''make it shorter'')]"
proof -
  have sel: "truthy (selected_idea scripted)"
    by (simp add: scripted_def idea_selected_def init_session_def)
  have h: "revision_history (fst (update_script_handler default_persona ''make it shorter''
          (Inl ''overloaded'') (scripted, init_io))) = [(''draft v1'', ''make it shorter'')]"
    by (simp only: update_script_handler_failed [OF sel] fst_conv append_revision_history)
       (simp add: scripted_def idea_selected_def init_session_def)
  have e: "revision_history scripted = []"
    by (simp add: scripted_def idea_selected_def init_session_def)
  have ne: "fst (update_script_handler default_persona ''make it shorter'' (Inl ''overloaded'')
          (scripted, init_io)) \<noteq> scripted"
  proof
    assume "fst (update_script_handler default_persona ''make it shorter'' (Inl ''overloaded'')
          (scripted, init_io)) = scripted"
    with h e show False by simp
  qed
  have a: "st_revision_history (fst (app_update_script_handler ''make it shorter''
          (Inl ''overloaded'') (app_scripted, init_io))) = [(''draft v1'', ''make it shorter'')]"
    by (simp only: app_update_failed)
       (simp add: app_scripted_def app_idea_selected_def init_app_state_def)
  have ae: "st_revision_history app_scripted = []"
    by (simp add: app_scripted_def app_idea_selected_def init_app_state_def)
  from ne e h ae a show ?thesis by blast
qed

section \<open>Loading a transcript\<close>

lemma ideate_handler_keeps:
  "selected_idea (fst (ideate_handler p fetched reply (s, w))) = selected_idea s"
  "current_script (fst (ideate_handler p fetched reply (s, w))) = current_script s"
  "revision_history (fst (ideate_handler p fetched reply (s, w))) = revision_history s"
  by (simp_all split: sum.splits prod.splits)

lemma ideate_handler_transcript:
  "transcript (fst (ideate_handler p (Inr t) reply (s, w))) = Some t"
  by (simp split: prod.splits)

lemma app_ideate_handler_keeps:
  "st_current_script (fst (app_ideate_handler fetched reply (a, w))) = st_current_script a"
  "st_revision_history (fst (app_ideate_handler fetched reply (a, w))) = st_revision_history a"
  by (simp_all split: sum.splits prod.splits)

lemma app_ideate_handler_transcript:
  "st_transcript (fst (app_ideate_handler (Inr t) reply (a, w))) = Some t"
  by (simp split: sum.splits prod.splits)

lemma app_ideate_handler_ideas:
  "fst (app_generate_ideas reply (Some t) w) = Inr ideas \<Longrightarrow>
   st_ideas (fst (app_ideate_handler (Inr t) reply (a, w))) = Some ideas"
  by (auto split: sum.splits prod.splits)

text \<open>The radio handler writes the selected idea and nothing else.\<close>

lemma app_radio_handler_keeps:
  "st_current_script (fst (app_radio_handler selected c)) = st_current_script (fst c)"
  "st_revision_history (fst (app_radio_handler selected c)) = st_revision_history (fst c)"
  "st_transcript (fst (app_radio_handler selected c)) = st_transcript (fst c)"
  by (cases c; simp add: Let_def split: option.splits)+

text \<open>In guavawriter2.py the run that follows the handler can evaluate the selection
  input; that writes neither the script nor the history, and no selected idea that is
  already there.\<close>

lemma select_after_ideate_keeps:
  "current_script (fst (select_idea_handler p idea_input reply' c)) = current_script (fst c)"
  "revision_history (fst (select_idea_handler p idea_input reply' c)) = revision_history (fst c)"
  "truthy (selected_idea (fst c)) \<Longrightarrow>
     selected_idea (fst (select_idea_handler p idea_input reply' c)) = selected_idea (fst c)"
  by (cases c; cases "transcript (fst c)";
      simp add: raise_def split: option.splits prod.splits)+

text \<open>
  C3, as amended. The handler of \<open>Ideate\<close> stores the fetched transcript, and in
  simplified-app.py the ideas generated from it. In both programs the current script and
  the revision history are as they were, whatever the fetch and the generation give, and
  they are still as they were after the run that follows the handler, in which
  simplified-app.py evaluates the radio button (whatever option it returns) and
  guavawriter2.py the selection input (whatever it holds). In guavawriter2.py the handler
  leaves the selected idea as it was too, and a selected idea that was there is still
  there after the run that follows. Nothing of these is reset.
\<close>

theorem ideate_keeps_session:
  "selected_idea (fst (ideate_handler p fetched reply (s, w))) = selected_idea s
   \<and> current_script (fst (ideate_handler p fetched reply (s, w))) = current_script s
   \<and> revision_history (fst (ideate_handler p fetched reply (s, w))) = revision_history s
   \<and> transcript (fst (ideate_handler p (Inr t) reply (s, w))) = Some t
   \<and> current_script (fst (select_idea_handler p idea_input reply'
         (ideate_handler p fetched reply (s, w)))) = current_script s
   \<and> revision_history (fst (select_idea_handler p idea_input reply'
         (ideate_handler p fetched reply (s, w)))) = revision_history s
   \<and> (truthy (selected_idea s) \<longrightarrow>
        selected_idea (fst (select_idea_handler p idea_input reply'
          (ideate_handler p fetched reply (s, w)))) = selected_idea s)
   \<and> st_current_script (fst (app_ideate_handler fetched reply (a, w))) = st_current_script a
   \<and> st_revision_history (fst (app_ideate_handler fetched reply (a, w))) = st_revision_history a
   \<and> st_current_script (fst (app_radio_handler selected (app_ideate_handler fetched reply (a, w))))
       = st_current_script a
   \<and> st_revision_history (fst (app_radio_handler selected (app_ideate_handler fetched reply (a, w))))
       = st_revision_history a
   \<and> st_transcript (fst (app_ideate_handler (Inr t) reply (a, w))) = Some t
   \<and> st_transcript (fst (app_radio_handler selected (app_ideate_handler (Inr t) reply (a, w))))
       = Some t
   \<and> (fst (app_generate_ideas reply (Some t) w) = Inr ideas \<longrightarrow>
        st_ideas (fst (app_ideate_handler (Inr t) reply (a, w))) = Some ideas)"
  by (simp del: ideate_handler.simps app_ideate_handler.simps app_radio_handler.simps
        select_idea_handler.simps
        add: ideate_handler_keeps ideate_handler_transcript app_ideate_handler_keeps
          app_ideate_handler_transcript app_ideate_handler_ideas app_radio_handler_keeps
          select_after_ideate_keeps)

theorem ideate_keeps_session_witness:
  "fst (app_generate_ideas (Inr example_body) (Some ''another transcript text'') init_io)
     = Inr [''A thing'', ''Second'', ''Third'']
   \<and> st_ideas (fst (app_ideate_handler (Inr ''another transcript text'') (Inr example_body)
        (app_scripted, init_io))) = Some [''A thing'', ''Second'', ''Third'']
   \<and> st_transcript (fst (app_ideate_handler (Inr ''another transcript text'') (Inr example_body)
        (app_scripted, init_io))) = Some ''another transcript text''
   \<and> st_current_script (fst (app_ideate_handler (Inr ''another transcript text'') (Inr example_body)
        (app_scripted, init_io))) = Some ''draft v1''
   \<and> st_current_script (fst (app_radio_handler []
        (app_ideate_handler (Inr ''another transcript text'') (Inr example_body)
           (app_scripted, init_io)))) = Some ''draft v1''
   \<and> truthy (selected_idea revised)
   \<and> selected_idea (fst (select_idea_handler default_persona ''1'' (Inr example_body)
        (ideate_handler default_persona (Inr ''another transcript text'') (Inr example_body)
           (revised, init_io)))) = Some ''Y''"
proof -
  have r: "selected_idea revised = Some ''Y''"
    by (simp add: revised_def scripted_def idea_selected_def init_session_def)
  have g: "fst (app_generate_ideas (Inr example_body) (Some ''another transcript text'') init_io)
     = Inr [''A thing'', ''Second'', ''Third'']"
    unfolding app_generate_ideas_def using app_parse_example by simp
  show ?thesis
    using g r ideate_keeps_session [where fetched = "Inr ''another transcript text''"
        and reply = "Inr example_body" and t = "''another transcript text''" and a = app_scripted
        and w = init_io and ideas = "[''A thing'', ''Second'', ''Third'']" and selected = "[]"
        and p = default_persona and s = revised and idea_input = "''1''"
        and reply' = "Inr example_body"]
    by (simp del: ideate_handler.simps app_ideate_handler.simps app_radio_handler.simps
          select_idea_handler.simps
          add: app_scripted_def app_idea_selected_def init_app_state_def)
qed

text \<open>The claim as written fails in both programs: a session with a script and a history
  keeps both when a new transcript is loaded, and in guavawriter2.py it keeps the
  selected idea as well.\<close>

theorem ideate_keeps_session_counterexample:
  "transcript (fst (ideate_handler default_persona (Inr ''another transcript text'')
       (Inr example_body) (revised, init_io))) = Some ''another transcript text''
   \<and> selected_idea (fst (ideate_handler default_persona (Inr ''another transcript text'')
       (Inr example_body) (revised, init_io))) = Some ''Y''
   \<and> current_script (fst (ideate_handler default_persona (Inr ''another transcript text'')
       (Inr example_body) (revised, init_io))) = Some ''draft v2''
   \<and> revision_history (fst (ideate_handler default_persona (Inr ''another transcript text'')
       (Inr example_body) (revised, init_io))) = [(''draft v1'', ''make it shorter'')]
   \<and> st_transcript (fst (app_ideate_handler (Inr ''another transcript text'')
       (Inr example_body) (app_scripted, init_io))) = Some ''another transcript text''
   \<and> st_current_script (fst (app_ideate_handler (Inr ''another transcript text'')
       (Inr example_body) (app_scripted, init_io))) = Some ''draft v1''
   \<and> st_current_script (fst (app_radio_handler []
       (app_ideate_handler (Inr ''another transcript text'') (Inr example_body)
          (app_scripted, init_io)))) = Some ''draft v1''"
  by (simp only: ideate_handler_keeps ideate_handler_transcript app_ideate_handler_keeps
        app_ideate_handler_transcript app_radio_handler_keeps)
     (simp add: revised_def scripted_def idea_selected_def init_session_def
        app_scripted_def app_idea_selected_def init_app_state_def)

section \<open>Selecting an idea\<close>

lemma generate_ideas_ok:
  "10 \<le> length (strip t) \<Longrightarrow>
   generate_ideas p (Inr text) t w =
     (parse_ideas text,
      send \<lparr>model = ''claude-3-sonnet-20240229'', max_tokens = 1000, prompt = ideas_prompt p t\<rparr> w)"
  by (auto simp: generate_ideas_def Let_def strip_Nil)

lemma valid_transcript_long: "10 \<le> length (strip ''valid transcript text'')"
  by code_simp

lemma generate_ideas_uncaught: "uncaught (snd (generate_ideas p reply t w)) = uncaught w"
  by (simp add: generate_ideas_def Let_def st_error_def send_def split: sum.splits)

lemma int_str_isdigit: "int_str x = Some i \<Longrightarrow> x \<noteq> [] \<and> isdigit x"
  by (auto simp: int_str_def isdigit_def list_all_iff split: if_splits)

lemma int_str_decimal:
  "x \<noteq> [] \<Longrightarrow> list_all isdecimal_char x \<Longrightarrow> length x \<le> 4300 \<Longrightarrow>
   int_str x = Some (decimal_value x)"
  by (simp add: int_str_def)

lemma int_str_rejects:
  "\<not> list_all isdecimal_char x \<or> 4300 < length x \<Longrightarrow> int_str x = None"
  by (auto simp: int_str_def)

lemma select_idea_handler_shown:
  assumes "transcript s = Some t" "t \<noteq> []" "\<not> truthy (selected_idea s)" "int_str idea_input = Some i"
  shows "select_idea_handler p idea_input reply (s, w) =
     (if \<not> (1 \<le> i \<and> i \<le> 3) then (s, w)
      else if i - 1 < length (fst (generate_ideas p reply t w)) then
        (add_message ''assistant''
           ''Great choice! What direction would you like to take with this idea?''
           (add_message ''user'' (''Let's go with idea '' @ idea_input)
              (s\<lparr>selected_idea := Some (fst (generate_ideas p reply t w) ! (i - 1))\<rparr>)),
         snd (generate_ideas p reply t w))
      else (s, raise IndexError (snd (generate_ideas p reply t w))))"
  using assms int_str_isdigit [OF assms(4)] by (simp split: prod.splits)

lemma select_idea_handler_value_error:
  assumes "transcript s = Some t" "t \<noteq> []" "\<not> truthy (selected_idea s)"
    "isdigit idea_input" "int_str idea_input = None"
  shows "select_idea_handler p idea_input reply (s, w) = (s, raise ValueError w)"
  using assms by (auto simp: isdigit_def)

lemma select_idea_handler_hidden:
  "truthy (selected_idea s) \<or> \<not> truthy (transcript s) \<or> \<not> isdigit idea_input \<Longrightarrow>
   select_idea_handler p idea_input reply (s, w) = (s, w)"
  by (cases "transcript s") (auto simp: isdigit_def)

declare select_idea_handler.simps [simp del]

text \<open>
  C4, as amended. The selection input is shown while there is a transcript and no selected
  idea; guavawriter2.py stores no idea set, the ideas are generated anew from the
  transcript at that moment (at most three). For an input that is a decimal numeral \<open>i\<close>
  of at most 4300 digits \<open>0\<close> to \<open>9\<close>: if \<open>1 \<le> i \<le> len(ideas)\<close> the selected idea
  becomes the \<open>i\<close>-th idea and nothing is raised; if \<open>i\<close> is 1, 2 or 3 but there are fewer
  than \<open>i\<close> ideas, \<open>IndexError\<close> is raised and the session is unchanged; if \<open>i\<close> is 0 or
  above 3 the input is ignored: no error, no request, session unchanged. For an input
  that \<open>isdigit\<close> accepts and \<open>int\<close> rejects (a superscript digit in it, or more than 4300
  digits) an uncaught \<open>ValueError\<close> is raised, with no request and the session unchanged.
  An input that \<open>isdigit\<close> rejects (the empty one among them), and any input once an idea
  is selected or while there is no transcript, is ignored.
\<close>

theorem select_idea_outcomes:
  "(transcript s = Some t \<and> t \<noteq> [] \<and> \<not> truthy (selected_idea s) \<longrightarrow>
      (idea_input \<noteq> [] \<and> list_all isdecimal_char idea_input \<and> length idea_input \<le> 4300 \<longrightarrow>
         (1 \<le> decimal_value idea_input
            \<and> decimal_value idea_input \<le> length (fst (generate_ideas p reply t w)) \<longrightarrow>
            selected_idea (fst (select_idea_handler p idea_input reply (s, w)))
              = Some (fst (generate_ideas p reply t w) ! (decimal_value idea_input - 1))
            \<and> uncaught (snd (select_idea_handler p idea_input reply (s, w))) = uncaught w)
         \<and> (1 \<le> decimal_value idea_input \<and> decimal_value idea_input \<le> 3
            \<and> length (fst (generate_ideas p reply t w)) < decimal_value idea_input \<longrightarrow>
            fst (select_idea_handler p idea_input reply (s, w)) = s
            \<and> uncaught (snd (select_idea_handler p idea_input reply (s, w)))
                = uncaught w @ [IndexError])
         \<and> (decimal_value idea_input = 0 \<or> 3 < decimal_value idea_input \<longrightarrow>
            select_idea_handler p idea_input reply (s, w) = (s, w)))
      \<and> (isdigit idea_input
           \<and> (\<not> list_all isdecimal_char idea_input \<or> 4300 < length idea_input) \<longrightarrow>
         fst (select_idea_handler p idea_input reply (s, w)) = s
         \<and> uncaught (snd (select_idea_handler p idea_input reply (s, w)))
             = uncaught w @ [ValueError]
         \<and> requests (snd (select_idea_handler p idea_input reply (s, w))) = requests w))
   \<and> (truthy (selected_idea s) \<or> \<not> truthy (transcript s) \<or> \<not> isdigit idea_input \<longrightarrow>
        select_idea_handler p idea_input reply (s, w) = (s, w))"
proof (intro conjI impI)
  assume shown: "transcript s = Some t \<and> t \<noteq> [] \<and> \<not> truthy (selected_idea s)"
    and dec: "idea_input \<noteq> [] \<and> list_all isdecimal_char idea_input \<and> length idea_input \<le> 4300"
  from dec have v: "int_str idea_input = Some (decimal_value idea_input)"
    by (simp add: int_str_decimal)
  note eq = select_idea_handler_shown [of s t idea_input "decimal_value idea_input" p reply w]
  {
    assume "1 \<le> decimal_value idea_input
            \<and> decimal_value idea_input \<le> length (fst (generate_ideas p reply t w))"
    moreover have "length (fst (generate_ideas p reply t w)) \<le> 3" by (rule length_generate_ideas)
    ultimately have "1 \<le> decimal_value idea_input \<and> decimal_value idea_input \<le> 3
        \<and> decimal_value idea_input - 1 < length (fst (generate_ideas p reply t w))" by arith
    with shown v eq show "selected_idea (fst (select_idea_handler p idea_input reply (s, w)))
           = Some (fst (generate_ideas p reply t w) ! (decimal_value idea_input - 1))"
      and "uncaught (snd (select_idea_handler p idea_input reply (s, w))) = uncaught w"
      by (simp_all add: generate_ideas_uncaught)
  }
  {
    assume "1 \<le> decimal_value idea_input \<and> decimal_value idea_input \<le> 3
            \<and> length (fst (generate_ideas p reply t w)) < decimal_value idea_input"
    then have "1 \<le> decimal_value idea_input \<and> decimal_value idea_input \<le> 3
        \<and> \<not> decimal_value idea_input - 1 < length (fst (generate_ideas p reply t w))" by arith
    with shown v eq show "fst (select_idea_handler p idea_input reply (s, w)) = s"
      and "uncaught (snd (select_idea_handler p idea_input reply (s, w))) = uncaught w @ [IndexError]"
      by (simp_all add: generate_ideas_uncaught raise_def)
  }
  {
    assume "decimal_value idea_input = 0 \<or> 3 < decimal_value idea_input"
    then have "\<not> (1 \<le> decimal_value idea_input \<and> decimal_value idea_input \<le> 3)" by arith
    with shown v eq show "select_idea_handler p idea_input reply (s, w) = (s, w)" by simp
  }
next
  assume shown: "transcript s = Some t \<and> t \<noteq> [] \<and> \<not> truthy (selected_idea s)"
    and rej: "isdigit idea_input \<and> (\<not> list_all isdecimal_char idea_input \<or> 4300 < length idea_input)"
  from rej have "int_str idea_input = None" by (simp add: int_str_rejects)
  with shown rej have "select_idea_handler p idea_input reply (s, w) = (s, raise ValueError w)"
    by (simp add: select_idea_handler_value_error)
  then show "fst (select_idea_handler p idea_input reply (s, w)) = s"
    and "uncaught (snd (select_idea_handler p idea_input reply (s, w))) = uncaught w @ [ValueError]"
    and "requests (snd (select_idea_handler p idea_input reply (s, w))) = requests w"
    by (simp_all add: raise_def)
next
  assume "truthy (selected_idea s) \<or> \<not> truthy (transcript s) \<or> \<not> isdigit idea_input"
  then show "select_idea_handler p idea_input reply (s, w) = (s, w)"
    by (rule select_idea_handler_hidden)
qed

lemma example_ideas:
  "fst (generate_ideas default_persona (Inr example_body) ''valid transcript text'' init_io)
     = [''A thing more detail'', ''Second'', ''Third'']"
  by (simp add: generate_ideas_ok [OF valid_transcript_long] parse_ideas_example)

lemma one_idea:
  "fst (generate_ideas default_persona (Inr ''Idea: only one'') ''valid transcript text'' init_io)
     = [''only one'']"
proof -
  have "parse_ideas ''Idea: only one'' = [''only one'']" by code_simp
  then show ?thesis by (simp add: generate_ideas_ok [OF valid_transcript_long])
qed

lemma int_str_examples:
  "int_str ''2'' = Some 2" "int_str ''3'' = Some 3" "int_str ''4'' = Some 4"
  by code_simp+

lemma decimal_examples:
  "list_all isdecimal_char ''2''" "decimal_value ''2'' = 2"
  "list_all isdecimal_char ''3''" "decimal_value ''3'' = 3"
  "list_all isdecimal_char ''4''" "decimal_value ''4'' = 4"
  by code_simp+

lemma rejected_examples:
  "isdigit [CHR 0xB2]" "\<not> list_all isdecimal_char [CHR 0xB2]"
  "isdigit long_numeral" "4300 < length long_numeral"
  "\<not> isdigit ''two''"
  by (simp_all add: isdigit_def isdecimal_char_def long_numeral_def list_all_iff)

theorem select_idea_outcomes_witness:
  "transcript transcript_loaded = Some ''valid transcript text''
   \<and> \<not> truthy (selected_idea transcript_loaded)
   \<and> selected_idea (fst (select_idea_handler default_persona ''2'' (Inr example_body)
        (transcript_loaded, init_io))) = Some ''Second''
   \<and> uncaught (snd (select_idea_handler default_persona ''2'' (Inr example_body)
        (transcript_loaded, init_io))) = []
   \<and> fst (select_idea_handler default_persona ''3'' (Inr ''Idea: only one'')
        (transcript_loaded, init_io)) = transcript_loaded
   \<and> uncaught (snd (select_idea_handler default_persona ''3'' (Inr ''Idea: only one'')
        (transcript_loaded, init_io))) = [IndexError]
   \<and> select_idea_handler default_persona ''4'' (Inr example_body) (transcript_loaded, init_io)
       = (transcript_loaded, init_io)
   \<and> isdigit [CHR 0xB2] \<and> \<not> list_all isdecimal_char [CHR 0xB2]
   \<and> fst (select_idea_handler default_persona [CHR 0xB2] (Inr example_body)
        (transcript_loaded, init_io)) = transcript_loaded
   \<and> uncaught (snd (select_idea_handler default_persona [CHR 0xB2] (Inr example_body)
        (transcript_loaded, init_io))) = [ValueError]
   \<and> isdigit long_numeral \<and> 4300 < length long_numeral
   \<and> uncaught (snd (select_idea_handler default_persona long_numeral (Inr example_body)
        (transcript_loaded, init_io))) = [ValueError]
   \<and> requests (snd (select_idea_handler default_persona long_numeral (Inr example_body)
        (transcript_loaded, init_io))) = []
   \<and> \<not> isdigit ''two''
   \<and> select_idea_handler default_persona ''two'' (Inr example_body) (transcript_loaded, init_io)
       = (transcript_loaded, init_io)
   \<and> truthy (selected_idea idea_selected)
   \<and> select_idea_handler default_persona ''2'' (Inr example_body) (idea_selected, init_io)
       = (idea_selected, init_io)"
proof -
  have s: "transcript transcript_loaded = Some ''valid transcript text''"
    "\<not> truthy (selected_idea transcript_loaded)" "truthy (selected_idea idea_selected)"
    by (simp_all add: transcript_loaded_def idea_selected_def init_session_def)
  show ?thesis
    using s decimal_examples rejected_examples example_ideas one_idea
      select_idea_outcomes [of transcript_loaded "''valid transcript text''" "''2''"
        default_persona "Inr example_body" init_io]
      select_idea_outcomes [of transcript_loaded "''valid transcript text''" "''3''"
        default_persona "Inr ''Idea: only one''" init_io]
      select_idea_outcomes [of transcript_loaded "''valid transcript text''" "''4''"
        default_persona "Inr example_body" init_io]
      select_idea_outcomes [of transcript_loaded "''valid transcript text''" "[CHR 0xB2]"
        default_persona "Inr example_body" init_io]
      select_idea_outcomes [of transcript_loaded "''valid transcript text''" long_numeral
        default_persona "Inr example_body" init_io]
      select_idea_outcomes [of transcript_loaded "''valid transcript text''" "''two''"
        default_persona "Inr example_body" init_io]
      select_idea_outcomes [of idea_selected "''valid transcript text''" "''2''"
        default_persona "Inr example_body" init_io]
    by (simp add: init_io_def)
qed

text \<open>The claim as written fails for an index above 3 (and for 0): with three ideas on
  offer the input \<open>4\<close> raises no error at all; the handler ignores it.\<close>

theorem select_idea_outcomes_counterexample:
  "length (fst (generate_ideas default_persona (Inr example_body) ''valid transcript text'' init_io)) = 3
   \<and> select_idea_handler default_persona ''4'' (Inr example_body) (transcript_loaded, init_io)
       = (transcript_loaded, init_io)
   \<and> uncaught init_io = []"
proof -
  have s: "transcript transcript_loaded = Some ''valid transcript text''"
    "\<not> truthy (selected_idea transcript_loaded)"
    by (simp_all add: transcript_loaded_def init_session_def)
  have "select_idea_handler default_persona ''4'' (Inr example_body) (transcript_loaded, init_io)
       = (transcript_loaded, init_io)"
    using select_idea_handler_shown [OF s(1) _ s(2) int_str_examples(3)] by simp
  then show ?thesis by (simp add: example_ideas) (simp add: init_io_def)
qed


section \<open>The generation request\<close>

lemma sublist_in_right: "sublist x b \<Longrightarrow> sublist x (a @ b)"
  by (metis append.assoc sublist_def)

lemma sublist_in_left: "sublist x a \<Longrightarrow> sublist x (a @ b)"
  by (metis append.assoc sublist_def)

lemma sublist_idea_base_prompt: "sublist idea (base_prompt p idea)"
  unfolding base_prompt_def by (rule sublist_appendI)

lemma script_prompt_revise:
  "truthy cs \<Longrightarrow> d \<noteq> [] \<Longrightarrow>
   script_prompt p tr idea d cs =
     base_prompt p idea @ (''\<newline>\<newline>Current script:\<newline>'' @ str_opt cs
       @ ''\<newline>\<newline>Direction for revision:\<newline>'') @ d"
  by (simp add: script_prompt_def)

lemma script_prompt_compose:
  "\<not> (truthy cs \<and> d \<noteq> []) \<Longrightarrow>
   script_prompt p tr idea d cs =
     base_prompt p idea @ (''\<newline>\<newline>Context from source:\<newline>'' @ str_opt tr
       @ ''\<newline>\<newline>Direction:\<newline>'') @ d"
  by (auto simp add: script_prompt_def)

lemma app_script_prompt_revise:
  "truthy cs \<Longrightarrow> d \<noteq> [] \<Longrightarrow>
   app_script_prompt a tr idea d cs =
     ''Revise this script based on the feedback and revision history:\<newline>''
       @ format_history (st_revision_history a)
       @ (''\<newline>CURRENT SCRIPT:\<newline>'' @ str_opt cs @ ''\<newline>NEW FEEDBACK:\<newline>'') @ d"
  by (simp add: app_script_prompt_def Let_def format_history_def)

lemma app_script_prompt_compose:
  "\<not> (truthy cs \<and> d \<noteq> []) \<Longrightarrow>
   app_script_prompt a tr idea d cs =
     ''Create a 60-second video script about this AI development:\<newline>\<newline>'' @ idea
       @ (''\<newline>\<newline>Direction:\<newline>'' @ d @ ''\<newline>\<newline>Context:\<newline>'') @ str_opt tr"
  by (auto simp add: app_script_prompt_def Let_def)

text \<open>What each request carries, as text that occurs in its prompt.\<close>

lemma prompt_carries:
  "fst (generate_script p reply tr idea d cs w) = reply
   \<and> requests (snd (generate_script p reply tr idea d cs w))
       = requests w @ [\<lparr>model = ''claude-3-opus-20240229'', max_tokens = 1000,
                          prompt = script_prompt p tr idea d cs\<rparr>]
   \<and> (truthy cs \<and> d \<noteq> [] \<longrightarrow>
        sublist (''Current script:\<newline>'' @ str_opt cs) (script_prompt p tr idea d cs)
        \<and> sublist (''Direction for revision:\<newline>'' @ d) (script_prompt p tr idea d cs)
        \<and> sublist idea (script_prompt p tr idea d cs))
   \<and> (\<not> (truthy cs \<and> d \<noteq> []) \<longrightarrow>
        sublist (''Context from source:\<newline>'' @ str_opt tr) (script_prompt p tr idea d cs)
        \<and> sublist (''Direction:\<newline>'' @ d) (script_prompt p tr idea d cs)
        \<and> sublist idea (script_prompt p tr idea d cs))
   \<and> fst (app_generate_script a reply tr idea d cs w) = reply
   \<and> requests (snd (app_generate_script a reply tr idea d cs w))
       = requests w @ [\<lparr>model = ''claude-3-opus-20240229'', max_tokens = 1000,
                          prompt = app_script_prompt a tr idea d cs\<rparr>]
   \<and> (truthy cs \<and> d \<noteq> [] \<longrightarrow>
        sublist (format_history (st_revision_history a)) (app_script_prompt a tr idea d cs)
        \<and> sublist (''CURRENT SCRIPT:\<newline>'' @ str_opt cs) (app_script_prompt a tr idea d cs)
        \<and> sublist (''NEW FEEDBACK:\<newline>'' @ d) (app_script_prompt a tr idea d cs))
   \<and> (\<not> (truthy cs \<and> d \<noteq> []) \<longrightarrow>
        sublist idea (app_script_prompt a tr idea d cs)
        \<and> sublist (''Direction:\<newline>'' @ d) (app_script_prompt a tr idea d cs)
        \<and> sublist (''Context:\<newline>'' @ str_opt tr) (app_script_prompt a tr idea d cs))"
proof (intro conjI impI)
  show "fst (generate_script p reply tr idea d cs w) = reply"
    and "requests (snd (generate_script p reply tr idea d cs w))
       = requests w @ [\<lparr>model = ''claude-3-opus-20240229'', max_tokens = 1000,
                          prompt = script_prompt p tr idea d cs\<rparr>]"
    by (simp_all add: generate_script_def send_def)
  show "fst (app_generate_script a reply tr idea d cs w) = reply"
    and "requests (snd (app_generate_script a reply tr idea d cs w))
       = requests w @ [\<lparr>model = ''claude-3-opus-20240229'', max_tokens = 1000,
                          prompt = app_script_prompt a tr idea d cs\<rparr>]"
    by (simp_all add: app_generate_script_def send_def)
next
  assume r: "truthy cs \<and> d \<noteq> []"
  then have eq: "script_prompt p tr idea d cs =
     base_prompt p idea @ (''\<newline>\<newline>Current script:\<newline>'' @ str_opt cs
       @ ''\<newline>\<newline>Direction for revision:\<newline>'') @ d"
    by (simp add: script_prompt_revise)
  have "sublist (''Current script:\<newline>'' @ str_opt cs)
          (''\<newline>\<newline>'' @ (''Current script:\<newline>'' @ str_opt cs) @ ''\<newline>\<newline>Direction for revision:\<newline>'')"
    by (rule sublist_appendI)
  then have m: "sublist (''Current script:\<newline>'' @ str_opt cs)
          (''\<newline>\<newline>Current script:\<newline>'' @ str_opt cs @ ''\<newline>\<newline>Direction for revision:\<newline>'')"
    by simp
  show "sublist (''Current script:\<newline>'' @ str_opt cs) (script_prompt p tr idea d cs)"
    unfolding eq by (rule sublist_in_right [OF sublist_in_left [OF m]])
  have "sublist (''Direction for revision:\<newline>'' @ d)
          ((base_prompt p idea @ ''\<newline>\<newline>Current script:\<newline>'' @ str_opt cs @ ''\<newline>\<newline>'')
             @ (''Direction for revision:\<newline>'' @ d))"
    by (rule sublist_append_leftI)
  then show "sublist (''Direction for revision:\<newline>'' @ d) (script_prompt p tr idea d cs)"
    unfolding eq by simp
  show "sublist idea (script_prompt p tr idea d cs)"
    unfolding eq by (rule sublist_in_left, rule sublist_idea_base_prompt)
next
  assume c: "\<not> (truthy cs \<and> d \<noteq> [])"
  then have eq: "script_prompt p tr idea d cs =
     base_prompt p idea @ (''\<newline>\<newline>Context from source:\<newline>'' @ str_opt tr
       @ ''\<newline>\<newline>Direction:\<newline>'') @ d"
    by (rule script_prompt_compose)
  have "sublist (''Context from source:\<newline>'' @ str_opt tr)
          (''\<newline>\<newline>'' @ (''Context from source:\<newline>'' @ str_opt tr) @ ''\<newline>\<newline>Direction:\<newline>'')"
    by (rule sublist_appendI)
  then have m: "sublist (''Context from source:\<newline>'' @ str_opt tr)
          (''\<newline>\<newline>Context from source:\<newline>'' @ str_opt tr @ ''\<newline>\<newline>Direction:\<newline>'')"
    by simp
  show "sublist (''Context from source:\<newline>'' @ str_opt tr) (script_prompt p tr idea d cs)"
    unfolding eq by (rule sublist_in_right [OF sublist_in_left [OF m]])
  have "sublist (''Direction:\<newline>'' @ d)
          ((base_prompt p idea @ ''\<newline>\<newline>Context from source:\<newline>'' @ str_opt tr @ ''\<newline>\<newline>'')
             @ (''Direction:\<newline>'' @ d))"
    by (rule sublist_append_leftI)
  then show "sublist (''Direction:\<newline>'' @ d) (script_prompt p tr idea d cs)"
    unfolding eq by simp
  show "sublist idea (script_prompt p tr idea d cs)"
    unfolding eq by (rule sublist_in_left, rule sublist_idea_base_prompt)
next
  assume r: "truthy cs \<and> d \<noteq> []"
  then have eq: "app_script_prompt a tr idea d cs =
     ''Revise this script based on the feedback and revision history:\<newline>''
       @ format_history (st_revision_history a)
       @ (''\<newline>CURRENT SCRIPT:\<newline>'' @ str_opt cs @ ''\<newline>NEW FEEDBACK:\<newline>'') @ d"
    by (simp add: app_script_prompt_revise)
  show "sublist (format_history (st_revision_history a)) (app_script_prompt a tr idea d cs)"
    unfolding eq by (rule sublist_appendI)
  have "sublist (''CURRENT SCRIPT:\<newline>'' @ str_opt cs)
          ((''Revise this script based on the feedback and revision history:\<newline>''
              @ format_history (st_revision_history a) @ ''\<newline>'')
           @ (''CURRENT SCRIPT:\<newline>'' @ str_opt cs) @ (''\<newline>NEW FEEDBACK:\<newline>'' @ d))"
    by (rule sublist_appendI)
  then show "sublist (''CURRENT SCRIPT:\<newline>'' @ str_opt cs) (app_script_prompt a tr idea d cs)"
    unfolding eq by simp
  have "sublist (''NEW FEEDBACK:\<newline>'' @ d)
          ((''Revise this script based on the feedback and revision history:\<newline>''
              @ format_history (st_revision_history a) @ ''\<newline>CURRENT SCRIPT:\<newline>'' @ str_opt cs @ ''\<newline>'')
           @ (''NEW FEEDBACK:\<newline>'' @ d))"
    by (rule sublist_append_leftI)
  then show "sublist (''NEW FEEDBACK:\<newline>'' @ d) (app_script_prompt a tr idea d cs)"
    unfolding eq by simp
next
  assume c: "\<not> (truthy cs \<and> d \<noteq> [])"
  then have eq: "app_script_prompt a tr idea d cs =
     ''Create a 60-second video script about this AI development:\<newline>\<newline>'' @ idea
       @ (''\<newline>\<newline>Direction:\<newline>'' @ d @ ''\<newline>\<newline>Context:\<newline>'') @ str_opt tr"
    by (rule app_script_prompt_compose)
  show "sublist idea (app_script_prompt a tr idea d cs)"
    unfolding eq by (rule sublist_appendI)
  have "sublist (''Direction:\<newline>'' @ d)
          ((''Create a 60-second video script about this AI development:\<newline>\<newline>'' @ idea @ ''\<newline>\<newline>'')
           @ (''Direction:\<newline>'' @ d) @ (''\<newline>\<newline>Context:\<newline>'' @ str_opt tr))"
    by (rule sublist_appendI)
  then show "sublist (''Direction:\<newline>'' @ d) (app_script_prompt a tr idea d cs)"
    unfolding eq by simp
  have "sublist (''Context:\<newline>'' @ str_opt tr)
          ((''Create a 60-second video script about this AI development:\<newline>\<newline>'' @ idea
              @ ''\<newline>\<newline>Direction:\<newline>'' @ d @ ''\<newline>\<newline>'')
           @ (''Context:\<newline>'' @ str_opt tr))"
    by (rule sublist_append_leftI)
  then show "sublist (''Context:\<newline>'' @ str_opt tr) (app_script_prompt a tr idea d cs)"
    unfolding eq by simp
qed

lemma dialogue_in_base_prompt: "sublist (dialogue_prompt p) (base_prompt p idea)"
  unfolding base_prompt_def
  by (rule sublist_in_right, rule sublist_in_right, rule sublist_in_right,
      rule sublist_append_rightI)

text \<open>
  C6, as amended. \<open>generate_script\<close> sends one request and returns what the service
  returns, text or exception, as it is. The request is the revision request exactly when
  the prior script and the feedback are both non-empty, and the composition request in
  every other case, a prior script with empty feedback among them.
  In guavawriter2.py both requests begin with the same base prompt, which carries the idea
  and the dialogue guidance of the persona; the revision request continues with the
  prior script and the feedback and with nothing else, so it does not depend on the
  transcript, and there is no revision history in it; the composition request continues
  with the transcript and the feedback and with nothing else, so it does not depend on the
  prior script.
  In simplified-app.py the revision request is the serialised revision history, the prior
  script and the feedback, and does not depend on the transcript or the idea; the
  composition request is the idea, the feedback and the transcript, and does not depend
  on the prior script or the history.
\<close>

theorem generate_script_request:
  "fst (generate_script p reply tr idea d cs w) = reply
   \<and> requests (snd (generate_script p reply tr idea d cs w))
       = requests w @ [\<lparr>model = ''claude-3-opus-20240229'', max_tokens = 1000,
                          prompt = script_prompt p tr idea d cs\<rparr>]
   \<and> sublist idea (base_prompt p idea) \<and> sublist (dialogue_prompt p) (base_prompt p idea)
   \<and> (truthy cs \<and> d \<noteq> [] \<longrightarrow>
        script_prompt p tr idea d cs
          = base_prompt p idea @ ''\<newline>\<newline>Current script:\<newline>'' @ str_opt cs
              @ ''\<newline>\<newline>Direction for revision:\<newline>'' @ d
        \<and> script_prompt p tr idea d cs = script_prompt p tr' idea d cs
        \<and> sublist (''Current script:\<newline>'' @ str_opt cs) (script_prompt p tr idea d cs)
        \<and> sublist (''Direction for revision:\<newline>'' @ d) (script_prompt p tr idea d cs)
        \<and> sublist idea (script_prompt p tr idea d cs))
   \<and> (\<not> (truthy cs \<and> d \<noteq> []) \<longrightarrow>
        script_prompt p tr idea d cs
          = base_prompt p idea @ ''\<newline>\<newline>Context from source:\<newline>'' @ str_opt tr
              @ ''\<newline>\<newline>Direction:\<newline>'' @ d
        \<and> script_prompt p tr idea d cs = script_prompt p tr idea d None
        \<and> sublist (''Context from source:\<newline>'' @ str_opt tr) (script_prompt p tr idea d cs)
        \<and> sublist (''Direction:\<newline>'' @ d) (script_prompt p tr idea d cs)
        \<and> sublist idea (script_prompt p tr idea d cs))
   \<and> fst (app_generate_script a reply tr idea d cs w) = reply
   \<and> requests (snd (app_generate_script a reply tr idea d cs w))
       = requests w @ [\<lparr>model = ''claude-3-opus-20240229'', max_tokens = 1000,
                          prompt = app_script_prompt a tr idea d cs\<rparr>]
   \<and> (truthy cs \<and> d \<noteq> [] \<longrightarrow>
        app_script_prompt a tr idea d cs
          = ''Revise this script based on the feedback and revision history:\<newline>''
              @ format_history (st_revision_history a)
              @ ''\<newline>CURRENT SCRIPT:\<newline>'' @ str_opt cs @ ''\<newline>NEW FEEDBACK:\<newline>'' @ d
        \<and> app_script_prompt a tr idea d cs = app_script_prompt a tr' idea' d cs
        \<and> sublist (format_history (st_revision_history a)) (app_script_prompt a tr idea d cs)
        \<and> sublist (''CURRENT SCRIPT:\<newline>'' @ str_opt cs) (app_script_prompt a tr idea d cs)
        \<and> sublist (''NEW FEEDBACK:\<newline>'' @ d) (app_script_prompt a tr idea d cs))
   \<and> (\<not> (truthy cs \<and> d \<noteq> []) \<longrightarrow>
        app_script_prompt a tr idea d cs
          = ''Create a 60-second video script about this AI development:\<newline>\<newline>'' @ idea
              @ ''\<newline>\<newline>Direction:\<newline>'' @ d @ ''\<newline>\<newline>Context:\<newline>'' @ str_opt tr
        \<and> app_script_prompt a tr idea d cs = app_script_prompt a' tr idea d None
        \<and> sublist idea (app_script_prompt a tr idea d cs)
        \<and> sublist (''Direction:\<newline>'' @ d) (app_script_prompt a tr idea d cs)
        \<and> sublist (''Context:\<newline>'' @ str_opt tr) (app_script_prompt a tr idea d cs))"
proof -
  note carries = prompt_carries [of p reply tr idea d cs w a]
  have revise: "truthy cs \<and> d \<noteq> [] \<Longrightarrow>
        script_prompt p tr idea d cs
          = base_prompt p idea @ ''\<newline>\<newline>Current script:\<newline>'' @ str_opt cs
              @ ''\<newline>\<newline>Direction for revision:\<newline>'' @ d
        \<and> script_prompt p tr idea d cs = script_prompt p tr' idea d cs"
    by (simp add: script_prompt_def)
  have compose: "\<not> (truthy cs \<and> d \<noteq> []) \<Longrightarrow>
        script_prompt p tr idea d cs
          = base_prompt p idea @ ''\<newline>\<newline>Context from source:\<newline>'' @ str_opt tr
              @ ''\<newline>\<newline>Direction:\<newline>'' @ d
        \<and> script_prompt p tr idea d cs = script_prompt p tr idea d None"
    by (auto simp add: script_prompt_def)
  have app_revise: "truthy cs \<and> d \<noteq> [] \<Longrightarrow>
        app_script_prompt a tr idea d cs
          = ''Revise this script based on the feedback and revision history:\<newline>''
              @ format_history (st_revision_history a)
              @ ''\<newline>CURRENT SCRIPT:\<newline>'' @ str_opt cs @ ''\<newline>NEW FEEDBACK:\<newline>'' @ d
        \<and> app_script_prompt a tr idea d cs = app_script_prompt a tr' idea' d cs"
    by (simp add: app_script_prompt_revise)
  have app_compose: "\<not> (truthy cs \<and> d \<noteq> []) \<Longrightarrow>
        app_script_prompt a tr idea d cs
          = ''Create a 60-second video script about this AI development:\<newline>\<newline>'' @ idea
              @ ''\<newline>\<newline>Direction:\<newline>'' @ d @ ''\<newline>\<newline>Context:\<newline>'' @ str_opt tr
        \<and> app_script_prompt a tr idea d cs = app_script_prompt a' tr idea d None"
    by (simp add: app_script_prompt_compose)
  from carries revise compose app_revise app_compose
    sublist_idea_base_prompt [of idea p] dialogue_in_base_prompt [of p idea]
  show ?thesis by blast
qed

theorem generate_script_request_witness:
  "truthy (Some ''draft v1'') \<and> ''make it shorter'' \<noteq> []
   \<and> fst (generate_script default_persona (Inr ''draft v2'') (Some ''valid transcript text'') ''Y''
          ''make it shorter'' (Some ''draft v1'') init_io) = Inr ''draft v2''
   \<and> script_prompt default_persona (Some ''valid transcript text'') ''Y'' ''make it shorter''
          (Some ''draft v1'')
       = base_prompt default_persona ''Y'' @ ''\<newline>\<newline>Current script:\<newline>''
           @ str_opt (Some ''draft v1'') @ ''\<newline>\<newline>Direction for revision:\<newline>''
           @ ''make it shorter''
   \<and> app_script_prompt app_scripted (Some ''valid transcript text'') ''Y'' ''make it shorter''
          (Some ''draft v1'')
       = ''Revise this script based on the feedback and revision history:\<newline>''
           @ format_history (st_revision_history app_scripted)
           @ ''\<newline>CURRENT SCRIPT:\<newline>'' @ str_opt (Some ''draft v1'')
           @ ''\<newline>NEW FEEDBACK:\<newline>'' @ ''make it shorter''
   \<and> \<not> (truthy None \<and> ''shorter'' \<noteq> [])
   \<and> script_prompt default_persona (Some ''valid transcript text'') ''Y'' ''shorter'' None
       = base_prompt default_persona ''Y'' @ ''\<newline>\<newline>Context from source:\<newline>''
           @ str_opt (Some ''valid transcript text'') @ ''\<newline>\<newline>Direction:\<newline>'' @ ''shorter''
   \<and> sublist (''Context:\<newline>'' @ str_opt (Some ''valid transcript text''))
        (app_script_prompt app_idea_selected (Some ''valid transcript text'') ''Y'' ''shorter'' None)"
proof -
  have r: "truthy (Some ''draft v1'') \<and> ''make it shorter'' \<noteq> []" by simp
  have c: "\<not> (truthy None \<and> ''shorter'' \<noteq> [])" by simp
  note revise = generate_script_request [where p = default_persona and reply = "Inr ''draft v2''"
          and tr = "Some ''valid transcript text''" and idea = "''Y''"
          and d = "''make it shorter''" and cs = "Some ''draft v1''" and w = init_io
          and a = app_scripted and tr' = None and idea' = "[]" and a' = init_app_state]
  note compose = generate_script_request [where p = default_persona and reply = "Inr ''draft v2''"
          and tr = "Some ''valid transcript text''" and idea = "''Y''"
          and d = "''shorter''" and cs = None and w = init_io and a = app_idea_selected
          and tr' = None and idea' = "[]" and a' = init_app_state]
  from r c revise compose show ?thesis by blast
qed

text \<open>The claim as written fails in both programs: with a prior script and empty feedback
  the request is the composition request, and the prior script is not in it.\<close>

theorem generate_script_request_counterexample:
  "truthy (Some ''draft v1'')
   \<and> \<not> sublist ''draft v1''
        (script_prompt default_persona (Some ''valid transcript text'') ''Y'' [] (Some ''draft v1''))
   \<and> sublist ''Context from source:\<newline>valid transcript text''
        (script_prompt default_persona (Some ''valid transcript text'') ''Y'' [] (Some ''draft v1''))
   \<and> \<not> sublist ''draft v1''
        (app_script_prompt app_scripted (Some ''valid transcript text'') ''Y'' [] (Some ''draft v1''))
   \<and> app_script_prompt app_scripted (Some ''valid transcript text'') ''Y'' [] (Some ''draft v1'')
       = ''Create a 60-second video script about this AI development:\<newline>\<newline>Y\<newline>\<newline>Direction:\<newline>\<newline>\<newline>Context:\<newline>valid transcript text''"
proof -
  have a: "\<not> sublist ''draft v1''
        (script_prompt default_persona (Some ''valid transcript text'') ''Y'' [] (Some ''draft v1''))"
    by code_simp
  have b: "sublist ''Context from source:\<newline>valid transcript text''
        (script_prompt default_persona (Some ''valid transcript text'') ''Y'' [] (Some ''draft v1''))"
    by code_simp
  have c: "app_script_prompt app_scripted (Some ''valid transcript text'') ''Y'' [] (Some ''draft v1'')
       = ''Create a 60-second video script about this AI development:\<newline>\<newline>Y\<newline>\<newline>Direction:\<newline>\<newline>\<newline>Context:\<newline>valid transcript text''"
    by (simp add: app_script_prompt_compose)
  have d: "\<not> sublist ''draft v1''
        (app_script_prompt app_scripted (Some ''valid transcript text'') ''Y'' [] (Some ''draft v1''))"
    unfolding c by code_simp
  from a b c d show ?thesis by simp
qed


section \<open>The selected idea\<close>

declare ideate_handler.simps [simp del]

lemma update_script_handler_selected:
  "selected_idea (fst (update_script_handler p d reply (s, w))) = selected_idea s"
  by (cases reply) (simp_all add: update_script_handler.simps generate_script_def Let_def)

lemma select_idea_handler_current:
  "current_script (fst (select_idea_handler p idea_input reply (s, w))) = current_script s"
  by (cases "transcript s")
     (simp_all add: select_idea_handler.simps raise_def split: option.splits prod.splits)

lemma select_idea_handler_frozen:
  "truthy (selected_idea s) \<Longrightarrow>
   selected_idea (fst (select_idea_handler p idea_input reply (s, w))) = selected_idea s"
  by (simp add: select_idea_handler_hidden)

lemma select_idea_handler_stays_selected:
  "truthy (selected_idea s) \<Longrightarrow>
   truthy (selected_idea (fst (select_idea_handler p idea_input reply (s, w))))"
  by (simp add: select_idea_handler_hidden)

text \<open>A selected idea is never changed, by any event.\<close>

lemma step_frozen:
  "truthy (selected_idea (fst c)) \<Longrightarrow> selected_idea (fst (step p a c)) = selected_idea (fst c)"
  by (cases c; cases a)
     (simp_all add: ideate_handler_keeps select_idea_handler_frozen update_script_handler_selected)

text \<open>A current script is only ever stored by the handler that needs a selected idea.\<close>

lemma step_current_needs_selected:
  assumes "truthy (current_script (fst c)) \<longrightarrow> truthy (selected_idea (fst c))"
  shows "truthy (current_script (fst (step p a c))) \<longrightarrow> truthy (selected_idea (fst (step p a c)))"
proof (cases "truthy (selected_idea (fst c))")
  case True
  then show ?thesis by (simp add: step_frozen)
next
  case False
  with assms have nc: "\<not> truthy (current_script (fst c))" by blast
  obtain s w where c: "c = (s, w)" by (cases c)
  show ?thesis
  proof (cases a)
    case (Ideate fetched reply)
    with nc c show ?thesis by (simp add: ideate_handler_keeps)
  next
    case (Select idea_input reply)
    with nc c show ?thesis by (simp add: select_idea_handler_current)
  next
    case (Update d reply)
    with False nc c show ?thesis by (simp add: update_script_handler_hidden)
  next
    case Approve
    with False nc show ?thesis by simp
  qed
qed

lemma reachable_current_needs_selected:
  "reachable p c \<Longrightarrow> truthy (current_script (fst c)) \<longrightarrow> truthy (selected_idea (fst c))"
proof (induction rule: reachable.induct)
  case (start w)
  show ?case by (simp add: init_session_def)
next
  case (next_step c a)
  from next_step.IH show ?case by (rule step_current_needs_selected)
qed

lemma app_radio_handler_selected:
  "st_ideas a = Some ideas \<Longrightarrow> ideas \<noteq> [] \<Longrightarrow>
   st_selected_idea (fst (app_radio_handler selected (a, w))) = Some selected"
  by (simp add: Let_def)

lemma loaded_run_reachable: "reachable default_persona loaded_run"
  unfolding loaded_run_def by (intro reachable.intros)

lemma scripted_run_reachable: "reachable default_persona scripted_run"
  unfolding scripted_run_def by (intro reachable.intros loaded_run_reachable)

lemma loaded_run_session:
  "transcript (fst loaded_run) = Some ''valid transcript text''"
  "selected_idea (fst loaded_run) = None"
  "current_script (fst loaded_run) = None"
  unfolding loaded_run_def step.simps
  by (simp_all only: ideate_handler_transcript ideate_handler_keeps)
     (simp_all add: init_session_def)

lemma selected_run_session:
  "selected_idea (fst (step default_persona (Select ''2'' (Inr example_body)) loaded_run))
     = Some ''Second''"
proof -
  obtain s1 w1 where c1: "loaded_run = (s1, w1)" by (cases loaded_run)
  have s1: "transcript s1 = Some ''valid transcript text''" "\<not> truthy (selected_idea s1)"
    using loaded_run_session by (simp_all add: c1)
  have ideas: "fst (generate_ideas default_persona (Inr example_body) ''valid transcript text'' w1)
     = [''A thing more detail'', ''Second'', ''Third'']"
    by (simp add: generate_ideas_ok [OF valid_transcript_long] parse_ideas_example)
  show ?thesis
    using select_idea_handler_shown [OF s1(1) _ s1(2) int_str_examples(1), of default_persona
            "Inr example_body" w1]
    by (simp add: c1 ideas)
qed

lemma scripted_run_session:
  "selected_idea (fst scripted_run) = Some ''Second''"
  "current_script (fst scripted_run) = Some ''draft v1''"
proof -
  obtain s2 w2 where c2: "step default_persona (Select ''2'' (Inr example_body)) loaded_run = (s2, w2)"
    by (cases "step default_persona (Select ''2'' (Inr example_body)) loaded_run")
  have s2: "selected_idea s2 = Some ''Second''"
    using selected_run_session [unfolded c2] by simp
  then have sel2: "truthy (selected_idea s2)" by simp
  have "fst scripted_run = fst (update_script_handler default_persona [] (Inr ''draft v1'') (s2, w2))"
    unfolding scripted_run_def c2 by simp
  then show "selected_idea (fst scripted_run) = Some ''Second''"
    and "current_script (fst scripted_run) = Some ''draft v1''"
    by (simp_all add: update_script_handler_ok [OF sel2] s2)
qed

text \<open>
  C9, as amended. In guavawriter2.py the selection input is shown only while no idea is
  selected, and no other handler writes the selected idea. So in every state that a
  session can reach, once there is a current script no event changes the selected idea,
  loading a new transcript included; and an event that changes the selected idea finds
  neither a selected idea nor a current script. In simplified-app.py there is no such
  guard: while ideas are shown, the radio handler stores every non-empty selection,
  whether there is a current script or not.
\<close>

theorem selected_idea_frozen:
  "(reachable p c \<and> truthy (current_script (fst c)) \<longrightarrow>
      selected_idea (fst (step p a c)) = selected_idea (fst c))
   \<and> (reachable p c \<and> selected_idea (fst (step p a c)) \<noteq> selected_idea (fst c) \<longrightarrow>
      \<not> truthy (selected_idea (fst c)) \<and> \<not> truthy (current_script (fst c)))
   \<and> (st_ideas st = Some ideas \<and> ideas \<noteq> [] \<and> selected \<noteq> [] \<longrightarrow>
      st_selected_idea (fst (app_radio_handler selected (st, w))) = Some selected)"
proof (intro conjI impI)
  assume "reachable p c \<and> truthy (current_script (fst c))"
  then have "truthy (selected_idea (fst c))"
    using reachable_current_needs_selected by blast
  then show "selected_idea (fst (step p a c)) = selected_idea (fst c)"
    by (rule step_frozen)
next
  assume h: "reachable p c \<and> selected_idea (fst (step p a c)) \<noteq> selected_idea (fst c)"
  then show "\<not> truthy (selected_idea (fst c))"
    using step_frozen by blast
  with h show "\<not> truthy (current_script (fst c))"
    using reachable_current_needs_selected by blast
next
  assume "st_ideas st = Some ideas \<and> ideas \<noteq> [] \<and> selected \<noteq> []"
  then show "st_selected_idea (fst (app_radio_handler selected (st, w))) = Some selected"
    by (simp add: app_radio_handler_selected)
qed

theorem selected_idea_frozen_witness:
  "reachable default_persona scripted_run \<and> truthy (current_script (fst scripted_run))
   \<and> selected_idea (fst (step default_persona (Select ''3'' (Inr example_body)) scripted_run))
       = Some ''Second''
   \<and> selected_idea (fst (step default_persona
        (Ideate (Inr ''another transcript text'') (Inr example_body)) scripted_run))
       = Some ''Second''
   \<and> reachable default_persona loaded_run
   \<and> selected_idea (fst (step default_persona (Select ''2'' (Inr example_body)) loaded_run))
       \<noteq> selected_idea (fst loaded_run)
   \<and> \<not> truthy (selected_idea (fst loaded_run)) \<and> \<not> truthy (current_script (fst loaded_run))
   \<and> st_ideas app_idea_selected = Some [''X'', ''Y'', ''Z'']
   \<and> st_selected_idea (fst (app_radio_handler ''X'' (app_idea_selected, init_io))) = Some ''X''"
proof -
  have a: "st_ideas app_idea_selected = Some [''X'', ''Y'', ''Z'']"
    by (simp add: app_idea_selected_def init_app_state_def)
  show ?thesis
    using scripted_run_reachable scripted_run_session loaded_run_reachable loaded_run_session
      selected_run_session a
      selected_idea_frozen [of default_persona scripted_run "Select ''3'' (Inr example_body)"
        app_idea_selected "[''X'', ''Y'', ''Z'']" "''X''" init_io]
      selected_idea_frozen [of default_persona scripted_run
        "Ideate (Inr ''another transcript text'') (Inr example_body)"
        app_idea_selected "[''X'', ''Y'', ''Z'']" "''X''" init_io]
      selected_idea_frozen [of default_persona loaded_run "Select ''2'' (Inr example_body)"
        app_idea_selected "[''X'', ''Y'', ''Z'']" "''X''" init_io]
    by (simp del: step.simps app_radio_handler.simps)
qed

text \<open>The claim as written fails in simplified-app.py: with a current script in the
  session, choosing another radio option replaces the selected idea.\<close>

theorem selected_idea_frozen_counterexample:
  "st_current_script app_scripted = Some ''draft v1''
   \<and> st_selected_idea app_scripted = Some ''Y''
   \<and> st_selected_idea (fst (app_radio_handler ''Z'' (app_scripted, init_io))) = Some ''Z''"
  by (simp add: app_scripted_def app_idea_selected_def init_app_state_def)

end
